theory Spec2Isabelle
  imports Main "HOL-Library.Sublist"
begin

section \<open>Data model\<close>

text \<open>
  The provider's symbol kinds (\<^verbatim>\<open>SymbolKind\<close> of the language server protocol), in the
  protocol's numbering 1..26.
\<close>

datatype SymbolKind =
    File | Module | Namespace | Package | Class | Method | Property | Field
  | Constructor | Enum | Interface | Function | Variable | Constant | String
  | Number | Boolean | Array | Object | Key | Null | EnumMember | Struct
  | Event | Operator | TypeParameter

record Position =
  line :: nat
  character :: nat

record Range =
  start :: Position
  end' :: Position

text \<open>
  Paths are held resolved, as \<^verbatim>\<open>path.resolve\<close> leaves them on POSIX: an absolute
  normalised path is the list of its segments, \<^verbatim>\<open>/\<close> is the empty list.
  A document URI is a string, held by what \<^verbatim>\<open>fileURLToPath\<close> does with it:
  \<^item> \<open>FileURL p\<close> is the \<^verbatim>\<open>href\<close> that \<^verbatim>\<open>pathToFileURL\<close> builds from the resolved path \<open>p\<close>;
  \<^item> \<open>SpelledFileURL s p\<close> is any other string \<open>s\<close> that \<^verbatim>\<open>fileURLToPath\<close> accepts (a
    file URL in another spelling, such as \<^verbatim>\<open>file:///r/x/../m.py\<close>), with the path \<open>p\<close> it
    returns for it, resolved;
  \<^item> \<open>OtherURL s\<close> is a string on which \<^verbatim>\<open>fileURLToPath\<close> throws its TypeError: not a
    URL, a scheme other than \<^verbatim>\<open>file\<close>, a host (\<^verbatim>\<open>file://host/r/m.py\<close>), an encoded slash.
  Map keys are compared as strings, so the three are different keys. Every key that
  \<^verbatim>\<open>main\<close> stores is built by \<^verbatim>\<open>pathToFileURL\<close>.
\<close>

type_synonym path = "string list"

datatype uri = FileURL path | SpelledFileURL string path | OtherURL string

datatype error =
    InvalidFileURL
  | EdgeReferencingNonExistantNode
  | LineContentUndefined

definition pathToFileURL :: "path \<Rightarrow> uri" where
  "pathToFileURL p = FileURL p"

fun fileURLToPath :: "uri \<Rightarrow> error + path" where
  "fileURLToPath (FileURL p) = Inr p"
| "fileURLToPath (SpelledFileURL s p) = Inr p"
| "fileURLToPath (OtherURL s) = Inl InvalidFileURL"

record Location =
  uri :: uri
  range :: Range

text \<open>
  \<^verbatim>\<open>LSPSymbol\<close> is \<^verbatim>\<open>SymbolInformation | DocumentSymbol\<close>; \<^verbatim>\<open>DocumentSymbol.is\<close> tells
  them apart by the presence of \<^verbatim>\<open>range\<close> and \<^verbatim>\<open>selectionRange\<close>. A symbol is the object
  the provider sent: \<open>others\<close> holds every own property of it that the program does not
  read (\<^verbatim>\<open>deprecated\<close>, \<^verbatim>\<open>detail\<close>, \<^verbatim>\<open>tags\<close> and whatever else the provider added), each
  with its name and its value as text. \<^verbatim>\<open>object-hash\<close> digests them with the rest. The
  symbols \<^verbatim>\<open>main\<close> creates have none.
\<close>

datatype LSPSymbol =
    SymbolInformation (name: string) (kind: SymbolKind)
      (containerName: "string option") (location: Location)
      (others: "(string \<times> string) list")
  | DocumentSymbol (name: string) (kind: SymbolKind)
      (symbolRange: Range) (selectionRange: Range) (children: "LSPSymbol list")
      (others: "(string \<times> string) list")

fun DocumentSymbol_is :: "LSPSymbol \<Rightarrow> bool" where
  "DocumentSymbol_is (DocumentSymbol n k r sr cs os) = True"
| "DocumentSymbol_is (SymbolInformation n k c l os) = False"

text \<open>
  \<^verbatim>\<open>DocumentSymbol.is(symbol) ? symbol.range : symbol.location.range\<close>
\<close>

fun declaredRange :: "LSPSymbol \<Rightarrow> Range" where
  "declaredRange (DocumentSymbol n k r sr cs os) = r"
| "declaredRange (SymbolInformation n k c l os) = range l"

text \<open>
  \<^verbatim>\<open>DocumentSymbol.is(symbol) ? symbol.selectionRange : symbol.location.range\<close>
\<close>

fun lookupRange :: "LSPSymbol \<Rightarrow> Range" where
  "lookupRange (DocumentSymbol n k r sr cs os) = sr"
| "lookupRange (SymbolInformation n k c l os) = range l"

text \<open>
  Symbols are JavaScript objects: arrays and maps hold references to them, and a map keyed
  by symbols compares keys by reference. A reference is an address of the object store.
\<close>

type_synonym ref = nat

type_synonym store = "ref \<Rightarrow> LSPSymbol"

text \<open>
  A JavaScript \<^verbatim>\<open>Map\<close> keeps its keys in insertion order; \<^verbatim>\<open>set\<close> on a key already
  present replaces the value in place.
\<close>

fun map_set :: "('k \<times> 'v) list \<Rightarrow> 'k \<Rightarrow> 'v \<Rightarrow> ('k \<times> 'v) list" where
  "map_set [] k v = [(k, v)]"
| "map_set ((k', v') # m) k v = (if k' = k then (k, v) # m else (k', v') # map_set m k v)"

definition map_get :: "('k \<times> 'v) list \<Rightarrow> 'k \<Rightarrow> 'v option" where
  "map_get m k = map_of m k"

definition map_has :: "('k \<times> 'v) list \<Rightarrow> 'k \<Rightarrow> bool" where
  "map_has m k = (map_of m k \<noteq> None)"

section \<open>Paths\<close>

fun join_sep :: "string list \<Rightarrow> string" where
  "join_sep [] = []"
| "join_sep [s] = s"
| "join_sep (s # t # ss) = s @ ''/'' @ join_sep (t # ss)"

definition startsWith :: "string \<Rightarrow> string \<Rightarrow> bool" where
  "startsWith s p = (take (length p) s = p)"

text \<open>
  \<^verbatim>\<open>path.relative(from, to)\<close> on two resolved paths: the common leading segments are
  dropped, every remaining segment of \<^verbatim>\<open>from\<close> becomes \<^verbatim>\<open>..\<close>, the rest of \<^verbatim>\<open>to\<close> follows.
\<close>

fun relative_segments :: "path \<Rightarrow> path \<Rightarrow> string list" where
  "relative_segments (a # as) (b # bs) =
     (if a = b then relative_segments as bs
      else replicate (length (a # as)) ''..'' @ (b # bs))"
| "relative_segments as bs = replicate (length as) ''..'' @ bs"

definition path_relative :: "path \<Rightarrow> path \<Rightarrow> string" where
  "path_relative from to = join_sep (relative_segments from to)"

text \<open>\<^verbatim>\<open>path.join(p, "..")\<close> on a resolved path.\<close>

definition parent :: "path \<Rightarrow> path" where
  "parent p = butlast p"

text \<open>
  The test both files use for a path outside the root:
  \<^verbatim>\<open>rel === ".." || rel.startsWith(".." + path.sep)\<close>
\<close>

definition outsideRoot :: "string \<Rightarrow> bool" where
  "outsideRoot rel = (rel = ''..'' \<or> startsWith rel ''../'')"

section \<open>Graph builder\<close>

text \<open>
  \<^verbatim>\<open>objectId\<close> is the \<^verbatim>\<open>object-hash\<close> library: a digest of a whole JavaScript value. The
  builder applies it to a symbol and to an array of symbols; it is a parameter of the
  model.
\<close>

datatype hashed = HSymbol LSPSymbol | HSymbols "LSPSymbol list"

type_synonym objectId = "hashed \<Rightarrow> string"

definition getGXLSymbolKind :: "LSPSymbol \<Rightarrow> string option" where
  "getGXLSymbolKind symbol =
     (case kind symbol of
        File \<Rightarrow> Some ''File''
      | Module \<Rightarrow> Some ''File''
      | Class \<Rightarrow> Some ''Class''
      | Field \<Rightarrow> Some ''Member''
      | Property \<Rightarrow> Some ''Member''
      | Method \<Rightarrow> Some ''Method''
      | Function \<Rightarrow> Some ''Routine''
      | _ \<Rightarrow> None)"

datatype GXLEdgeType = Source_Dependency | Enclosing

record GXLNodeAttributes =
  Source_Name :: string
  Source_Line :: nat
  Source_Column :: nat
  Source_Path :: string

text \<open>The children of the \<^verbatim>\<open>graph\<close> element, in document order.\<close>

datatype GXLElement =
    GXLNode (node_id: string) (node_type: string) (node_attrs: GXLNodeAttributes)
  | GXLEdge (edge_from: string) (edge_to: string) (edge_type: GXLEdgeType)

record GXLState =
  nodeIds :: "string list"
  edgeNodeIds :: "(string \<times> string) list"
  graphElement :: "GXLElement list"

definition nodeID :: "objectId \<Rightarrow> LSPSymbol \<Rightarrow> string" where
  "nodeID oid symbol = name symbol @ '':'' @ oid (HSymbol symbol)"

text \<open>
  The \<^verbatim>\<open>Enclosing\<close> edge the builder creates for a symbol that is not of kind \<^verbatim>\<open>File\<close>
  (lines 132 to 148): to the symbol of the same document named by \<^verbatim>\<open>containerName\<close>,
  else to the document's \<^verbatim>\<open>File\<close> symbol whose name is the path relative to the root.
  \<^verbatim>\<open>s.name === symbol.containerName\<close> is false for every \<^verbatim>\<open>s\<close> when the container name is
  undefined.
\<close>

definition memberEdge ::
  "objectId \<Rightarrow> path \<Rightarrow> path \<Rightarrow> LSPSymbol list \<Rightarrow> LSPSymbol \<Rightarrow> GXLElement option" where
  "memberEdge oid rootPath filePath symbols symbol =
     (if \<not> DocumentSymbol_is symbol then
        (case find (\<lambda>s. Some (name s) = containerName symbol) symbols of
           Some container \<Rightarrow>
             Some (GXLEdge (nodeID oid symbol) (oid (HSymbol container)) Enclosing)
         | None \<Rightarrow>
             (case find (\<lambda>s. kind s = File \<and> name s = path_relative rootPath filePath)
                     symbols of
                Some fileSymbol \<Rightarrow>
                  Some (GXLEdge (nodeID oid symbol) (oid (HSymbol fileSymbol)) Enclosing)
              | None \<Rightarrow> None))
      else None)"

text \<open>
  The \<^verbatim>\<open>Enclosing\<close> edge of a \<^verbatim>\<open>File\<close> symbol (lines 109 to 130): to the digest of the
  array stored under the parent directory's URI, when the file is not outside the root
  and that array exists.
\<close>

definition fileEdge ::
  "objectId \<Rightarrow> store \<Rightarrow> (uri \<times> ref list) list \<Rightarrow> path \<Rightarrow> path \<Rightarrow> LSPSymbol
     \<Rightarrow> GXLElement option" where
  "fileEdge oid heap symbolsByFile rootPath filePath symbol =
     (let relativeFilePath = path_relative rootPath filePath in
      if \<not> outsideRoot relativeFilePath then
        (let parentDirectoryUri = pathToFileURL (parent filePath) in
         case map_get symbolsByFile parentDirectoryUri of
           Some parentDirSymbol \<Rightarrow>
             Some (GXLEdge (nodeID oid symbol) (oid (HSymbols (map heap parentDirSymbol)))
                     Enclosing)
         | None \<Rightarrow> None)
      else None)"

text \<open>The loop over \<^verbatim>\<open>references.get(symbol) || []\<close> (lines 160 to 169).\<close>

fun addReferences :: "objectId \<Rightarrow> store \<Rightarrow> string \<Rightarrow> ref list \<Rightarrow> GXLState \<Rightarrow> GXLState" where
  "addReferences oid heap nid [] st = st"
| "addReferences oid heap nid (reference # rs) st =
     (let referenceNodeID = oid (HSymbol (heap reference)) in
      addReferences oid heap nid rs
        (st\<lparr>edgeNodeIds := edgeNodeIds st @ [(referenceNodeID, nid)],
            graphElement := graphElement st @ [GXLEdge referenceNodeID nid Source_Dependency]\<rparr>))"

text \<open>
  The body of the inner loop (lines 98 to 169) for one symbol of the document \<^verbatim>\<open>uri\<close>.
  Every path through the body calls \<^verbatim>\<open>fileURLToPath(uri)\<close> (line 110, 142 or 155), and
  nothing of the state survives its throw, so the model calls it once. The edge of a
  \<^verbatim>\<open>File\<close> symbol is appended to the graph element (line 126); the element that
  \<^verbatim>\<open>createGXLEdge\<close> returns at lines 136 and 145 is dropped, so \<open>memberEdge\<close> leaves the
  state as it is.
\<close>

definition asGXL_symbol ::
  "objectId \<Rightarrow> store \<Rightarrow> (uri \<times> ref list) list \<Rightarrow> (ref \<times> ref list) list \<Rightarrow> path
     \<Rightarrow> uri \<Rightarrow> ref list \<Rightarrow> ref \<Rightarrow> GXLState \<Rightarrow> error + GXLState" where
  "asGXL_symbol oid heap symbolsByFile references rootPath u symbols r st =
     (let symbol = heap r in
      case getGXLSymbolKind symbol of
        None \<Rightarrow> Inr st
      | Some type \<Rightarrow>
          (let nid = nodeID oid symbol;
               st1 = st\<lparr>nodeIds := List.insert nid (nodeIds st)\<rparr>;
               rng = declaredRange symbol
           in case fileURLToPath u of
                Inl e \<Rightarrow> Inl e
              | Inr filePath \<Rightarrow>
                  (let st2 =
                         (if kind symbol = File then
                            (case fileEdge oid heap symbolsByFile rootPath filePath symbol of
                               Some edge \<Rightarrow> st1\<lparr>graphElement := graphElement st1 @ [edge]\<rparr>
                             | None \<Rightarrow> st1)
                          else
                            (let dropped = memberEdge oid rootPath filePath (map heap symbols)
                                             symbol
                             in st1));
                       node = GXLNode nid type
                                \<lparr>Source_Name = name symbol,
                                 Source_Line = line (start rng),
                                 Source_Column = character (start rng),
                                 Source_Path = path_relative rootPath filePath\<rparr>;
                       st3 = st2\<lparr>graphElement := graphElement st2 @ [node]\<rparr>
                   in Inr (addReferences oid heap nid
                             (case map_get references r of Some rs \<Rightarrow> rs | None \<Rightarrow> [])
                             st3))))"

fun asGXL_symbols ::
  "objectId \<Rightarrow> store \<Rightarrow> (uri \<times> ref list) list \<Rightarrow> (ref \<times> ref list) list \<Rightarrow> path
     \<Rightarrow> uri \<Rightarrow> ref list \<Rightarrow> ref list \<Rightarrow> GXLState \<Rightarrow> error + GXLState" where
  "asGXL_symbols oid heap sbf references rootPath u symbols [] st = Inr st"
| "asGXL_symbols oid heap sbf references rootPath u symbols (r # rs) st =
     (case asGXL_symbol oid heap sbf references rootPath u symbols r st of
        Inl e \<Rightarrow> Inl e
      | Inr st' \<Rightarrow> asGXL_symbols oid heap sbf references rootPath u symbols rs st')"

fun asGXL_files ::
  "objectId \<Rightarrow> store \<Rightarrow> (uri \<times> ref list) list \<Rightarrow> (ref \<times> ref list) list \<Rightarrow> path
     \<Rightarrow> (uri \<times> ref list) list \<Rightarrow> GXLState \<Rightarrow> error + GXLState" where
  "asGXL_files oid heap sbf references rootPath [] st = Inr st"
| "asGXL_files oid heap sbf references rootPath ((u, symbols) # rest) st =
     (case asGXL_symbols oid heap sbf references rootPath u symbols symbols st of
        Inl e \<Rightarrow> Inl e
      | Inr st' \<Rightarrow> asGXL_files oid heap sbf references rootPath rest st')"

text \<open>
  The verification pass (lines 174 to 178) reads \<^verbatim>\<open>edgeNodeIds\<close>, which holds the
  \<^verbatim>\<open>Source_Dependency\<close> edges only: the pass throws when an end of one of them is not in
  \<^verbatim>\<open>nodeIds\<close>. The result is the content of the graph element, in document order; its
  \<^verbatim>\<open>id\<close> attribute (the digest of both maps) and the serialisation to text are not
  modelled. The attribute checks of \<^verbatim>\<open>createGXLNode\<close> and \<^verbatim>\<open>addGXLAttribute\<close> cannot fail:
  the name and the path are strings, the line and the column are naturals.
\<close>

definition verified :: "GXLState \<Rightarrow> bool" where
  "verified st =
     list_all (\<lambda>edge. fst edge \<in> set (nodeIds st) \<and> snd edge \<in> set (nodeIds st))
       (edgeNodeIds st)"

definition asGXL ::
  "objectId \<Rightarrow> store \<Rightarrow> (uri \<times> ref list) list \<Rightarrow> (ref \<times> ref list) list \<Rightarrow> path
     \<Rightarrow> error + GXLElement list" where
  "asGXL oid heap symbolsByFile references rootPath =
     (case asGXL_files oid heap symbolsByFile references rootPath symbolsByFile
             \<lparr>nodeIds = [], edgeNodeIds = [], graphElement = []\<rparr> of
        Inl e \<Rightarrow> Inl e
      | Inr st \<Rightarrow>
          if verified st then Inr (graphElement st) else Inl EdgeReferencingNonExistantNode)"

section \<open>Per-file processing\<close>

text \<open>
  The language server and the file system, as the run sees them: the answer to a
  \<^verbatim>\<open>textDocument/documentSymbol\<close> request (\<^verbatim>\<open>|| []\<close> applied), the content \<^verbatim>\<open>readFile\<close>
  returns, and the answer to a \<^verbatim>\<open>textDocument/references\<close> request (\<^verbatim>\<open>|| []\<close> applied).
\<close>

record ReferenceParams =
  textDocument :: uri
  position :: Position

record Provider =
  documentSymbolRequest :: "uri \<Rightarrow> LSPSymbol list"
  readFile :: "path \<Rightarrow> string"
  referencesRequest :: "ReferenceParams \<Rightarrow> Location list"

text \<open>
  The state of \<^verbatim>\<open>main\<close>: the object store with its next free address, the maps
  \<^verbatim>\<open>symbols\<close> and \<^verbatim>\<open>allReferences\<close>, and the \<^verbatim>\<open>ReferencesRequest\<close>s sent so far.
\<close>

record MainState =
  heap :: store
  nextRef :: ref
  symbols :: "(uri \<times> ref list) list"
  allReferences :: "(ref \<times> Location list) list"
  requests :: "ReferenceParams list"

definition zeroRange :: Range where
  "zeroRange = \<lparr>start = \<lparr>line = 0, character = 0\<rparr>, end' = \<lparr>line = 0, character = 0\<rparr>\<rparr>"

definition new_object :: "LSPSymbol \<Rightarrow> MainState \<Rightarrow> ref \<times> MainState" where
  "new_object symbol st =
     (nextRef st, st\<lparr>heap := (heap st)(nextRef st := symbol), nextRef := Suc (nextRef st)\<rparr>)"

fun new_objects :: "LSPSymbol list \<Rightarrow> MainState \<Rightarrow> ref list \<times> MainState" where
  "new_objects [] st = ([], st)"
| "new_objects (symbol # rest) st =
     (let (r, st1) = new_object symbol st;
          (rs, st2) = new_objects rest st1
      in (r # rs, st2))"

subsection \<open>Directory symbols (lines 163 to 191)\<close>

text \<open>\<^verbatim>\<open>file.toString().split(path.sep)\<close> of a resolved path.\<close>

definition path_split :: "path \<Rightarrow> string list" where
  "path_split file = (if file = [] then ['''', ''''] else '''' # file)"

text \<open>
  \<^verbatim>\<open>segments.join(path.sep)\<close> resolved, as \<^verbatim>\<open>path.relative\<close> and \<^verbatim>\<open>pathToFileURL\<close> resolve
  it: the segments after a leading empty one are an absolute path, the empty string is
  the working directory, and anything else is relative to the working directory.
\<close>

fun resolve_joined :: "path \<Rightarrow> string list \<Rightarrow> path" where
  "resolve_joined cwd [] = cwd"
| "resolve_joined cwd (s # ds) =
     (if s = [] then (if ds = [] then cwd else ds) else cwd @ (s # ds))"

text \<open>\<^verbatim>\<open>path.basename(dir)\<close> for \<^verbatim>\<open>dir = segments.join(path.sep)\<close>.\<close>

definition dir_basename :: "string list \<Rightarrow> string" where
  "dir_basename segments = (if segments = [] then [] else last segments)"

text \<open>\<^verbatim>\<open>path.basename(path.join(dir, ".."))\<close> for \<^verbatim>\<open>dir = segments.join(path.sep)\<close>.\<close>

fun dir_containerName :: "string list \<Rightarrow> string" where
  "dir_containerName [] = ''..''"
| "dir_containerName [s] = (if s = [] then ''..'' else ''.'')"
| "dir_containerName segments = last (butlast segments)"

definition directorySymbol :: "string list \<Rightarrow> uri \<Rightarrow> LSPSymbol" where
  "directorySymbol segments u =
     SymbolInformation (dir_basename segments) File (Some (dir_containerName segments))
       \<lparr>uri = u, range = zeroRange\<rparr> []"

text \<open>
  \<^verbatim>\<open>while (segments.pop()) { ... }\<close>: \<^verbatim>\<open>pop\<close> returns undefined on the empty array, and the
  empty string is falsy.
\<close>

function addDirectories :: "path \<Rightarrow> path \<Rightarrow> string list \<Rightarrow> MainState \<Rightarrow> MainState" where
  "addDirectories cwd rootPath segments st =
     (if segments = [] \<or> last segments = [] then st
      else
        (let segments' = butlast segments;
             dir = resolve_joined cwd segments';
             relativeDirPath = path_relative rootPath dir
         in if outsideRoot relativeDirPath then st
            else
              (let u = pathToFileURL dir;
                   st' = (if \<not> map_has (symbols st) u then
                            (let (r, st1) = new_object (directorySymbol segments' u) st
                             in st1\<lparr>symbols := map_set (symbols st1) u [r]\<rparr>)
                          else st)
               in addDirectories cwd rootPath segments' st')))"
  by pat_completeness auto
termination
  by (relation "measure (\<lambda>(cwd, rootPath, segments, st). length segments)") auto

declare addDirectories.simps [simp del]

subsection \<open>Reference lookup (lines 193 to 237)\<close>

text \<open>\<^verbatim>\<open>content.split("\n")\<close>\<close>

fun split_lines :: "string \<Rightarrow> string list" where
  "split_lines [] = [[]]"
| "split_lines (c # cs) =
     (if c = CHR 0x0A then [] # split_lines cs
      else (case split_lines cs of
              l # ls \<Rightarrow> (c # l) # ls
            | [] \<Rightarrow> [[c]]))"

definition nth_opt :: "'a list \<Rightarrow> nat \<Rightarrow> 'a option" where
  "nth_opt xs n = (if n < length xs then Some (xs ! n) else None)"

text \<open>
  The regular expression \<^verbatim>\<open>/\bimport\b/\<close>: the word \<^verbatim>\<open>import\<close> with no word character
  (\<^verbatim>\<open>[A-Za-z0-9_]\<close>) directly before or after it.
\<close>

definition isWordChar :: "char \<Rightarrow> bool" where
  "isWordChar c =
     (let n = of_char c :: nat
      in (65 \<le> n \<and> n \<le> 90) \<or> (97 \<le> n \<and> n \<le> 122) \<or> (48 \<le> n \<and> n \<le> 57) \<or> n = 95)"

fun import_scan :: "bool \<Rightarrow> string \<Rightarrow> bool" where
  "import_scan afterWord [] = False"
| "import_scan afterWord (c # cs) =
     ((\<not> afterWord \<and> startsWith (c # cs) ''import'' \<and>
        (case drop 6 (c # cs) of [] \<Rightarrow> True | d # ds \<Rightarrow> \<not> isWordChar d))
      \<or> import_scan (isWordChar c) cs)"

definition matches_import :: "string \<Rightarrow> bool" where
  "matches_import lineContent = import_scan False lineContent"

text \<open>
  \<^verbatim>\<open>referencePosition\<close> is the object \<^verbatim>\<open>range.start\<close> of the symbol itself, so
  \<^verbatim>\<open>referencePosition.character += ...\<close> writes the symbol's own start column.
\<close>

fun set_lookup_character :: "LSPSymbol \<Rightarrow> nat \<Rightarrow> LSPSymbol" where
  "set_lookup_character (SymbolInformation n k c l os) ch =
     SymbolInformation n k c
       (l\<lparr>range := (range l)\<lparr>start := (start (range l))\<lparr>character := ch\<rparr>\<rparr>\<rparr>) os"
| "set_lookup_character (DocumentSymbol n k r sr cs os) ch =
     DocumentSymbol n k r (sr\<lparr>start := (start sr)\<lparr>character := ch\<rparr>\<rparr>) cs os"

text \<open>
  Lines 209 to 218: the column after the two keyword tests; the second test reads the
  column the first one left.
\<close>

definition skipKeywords :: "string \<Rightarrow> nat \<Rightarrow> nat" where
  "skipKeywords lineContent ch =
     (let c1 = (if startsWith (drop ch lineContent) ''def ''
                then ch + (length ''def '' + 1) else ch);
          c2 = (if startsWith (drop c1 lineContent) ''class ''
                then c1 + (length ''class '' + 1) else c1)
      in c2)"

text \<open>
  The body of the loop over \<^verbatim>\<open>docSymbols\<close> for one symbol. When the start line is past the
  end of the file \<^verbatim>\<open>lineContent\<close> is undefined: the test of line 206 is false (it reads the
  string \<^verbatim>\<open>undefined\<close>) and \<^verbatim>\<open>lineContent.slice\<close> at line 210 throws a TypeError.
\<close>

definition getReferences ::
  "Provider \<Rightarrow> path \<Rightarrow> uri \<Rightarrow> ref \<Rightarrow> MainState \<Rightarrow> error + MainState" where
  "getReferences provider file u r st =
     (let symbol = heap st r in
      if getGXLSymbolKind symbol = None then Inr st
      else
        (let rng = lookupRange symbol;
             content = readFile provider file
         in case nth_opt (split_lines content) (line (start rng)) of
              None \<Rightarrow> Inl LineContentUndefined
            | Some lineContent \<Rightarrow>
                if matches_import lineContent then Inr st
                else
                  (let ch = skipKeywords lineContent (character (start rng));
                       referenceParams =
                         \<lparr>textDocument = u,
                          position = \<lparr>line = line (start rng), character = ch\<rparr>\<rparr>;
                       references = referencesRequest provider referenceParams
                   in Inr (st\<lparr>heap := (heap st)(r := set_lookup_character symbol ch),
                              requests := requests st @ [referenceParams],
                              allReferences := map_set (allReferences st) r references\<rparr>))))"

fun getReferences_all ::
  "Provider \<Rightarrow> path \<Rightarrow> uri \<Rightarrow> ref list \<Rightarrow> MainState \<Rightarrow> error + MainState" where
  "getReferences_all provider file u [] st = Inr st"
| "getReferences_all provider file u (r # rs) st =
     (case getReferences provider file u r st of
        Inl e \<Rightarrow> Inl e
      | Inr st' \<Rightarrow> getReferences_all provider file u rs st')"

subsection \<open>The symbol of the file itself (lines 239 to 251)\<close>

text \<open>\<^verbatim>\<open>path.basename(relativePath)\<close> on the segments of a relative path.\<close>

definition rel_basename :: "string list \<Rightarrow> string" where
  "rel_basename rel = (if rel = [] then [] else last rel)"

text \<open>\<^verbatim>\<open>path.basename(path.join(relativePath, ".."))\<close> on the segments of a relative path.\<close>

definition rel_containerName :: "string list \<Rightarrow> string" where
  "rel_containerName rel =
     (if rel = [] \<or> last rel = ''..'' then ''..''
      else if butlast rel = [] then ''.''
      else last (butlast rel))"

definition fileSymbol :: "path \<Rightarrow> path \<Rightarrow> LSPSymbol" where
  "fileSymbol rootPath file =
     (let relativePath = relative_segments rootPath file
      in SymbolInformation (rel_basename relativePath) File
           (Some (rel_containerName relativePath))
           \<lparr>uri = pathToFileURL file, range = zeroRange\<rparr> [])"

subsection \<open>One iteration of the loop over the files (lines 153 to 252)\<close>

text \<open>
  \<^verbatim>\<open>docSymbols.filter(getGXLSymbolKind)\<close> is a new array of the same objects; it is the
  array stored under the document's URI. \<^verbatim>\<open>docSymbols.push\<close> at line 240 extends the
  local array \<^verbatim>\<open>docSymbols\<close>. The result is that local array and the state.
\<close>

definition processFile ::
  "Provider \<Rightarrow> path \<Rightarrow> path \<Rightarrow> bool \<Rightarrow> path \<Rightarrow> MainState
     \<Rightarrow> error + (ref list \<times> MainState)" where
  "processFile provider cwd rootPath noReferences file st =
     (let u = pathToFileURL file;
          (docSymbols, st1) = new_objects (documentSymbolRequest provider u) st;
          st2 = st1\<lparr>symbols :=
                   map_set (symbols st1) u
                     (filter (\<lambda>r. getGXLSymbolKind (heap st1 r) \<noteq> None) docSymbols)\<rparr>;
          st3 = addDirectories cwd rootPath (path_split file) st2
      in case (if \<not> noReferences then getReferences_all provider file u docSymbols st3
               else Inr st3) of
           Inl e \<Rightarrow> Inl e
         | Inr st4 \<Rightarrow>
             (let (r, st5) = new_object (fileSymbol rootPath file) st4
              in Inr (docSymbols @ [r], st5)))"

fun processFiles ::
  "Provider \<Rightarrow> path \<Rightarrow> path \<Rightarrow> bool \<Rightarrow> path list \<Rightarrow> MainState \<Rightarrow> error + MainState" where
  "processFiles provider cwd rootPath noReferences [] st = Inr st"
| "processFiles provider cwd rootPath noReferences (file # files) st =
     (case processFile provider cwd rootPath noReferences file st of
        Inl e \<Rightarrow> Inl e
      | Inr (docSymbols, st') \<Rightarrow> processFiles provider cwd rootPath noReferences files st')"

section \<open>Reference resolver (lines 254 to 296)\<close>

text \<open>
  \<^verbatim>\<open>Range.fromPlain\<close> and \<^verbatim>\<open>Range.contains\<close> of \<^verbatim>\<open>@sourcegraph/extension-api-classes\<close>: the
  constructor orders the two positions, and a range contains another when it contains
  both of its ends.
\<close>

definition isBefore :: "Position \<Rightarrow> Position \<Rightarrow> bool" where
  "isBefore p q = (line p < line q \<or> (line p = line q \<and> character p < character q))"

definition Range_fromPlain :: "Range \<Rightarrow> Range" where
  "Range_fromPlain r =
     (if isBefore (start r) (end' r) then r else \<lparr>start = end' r, end' = start r\<rparr>)"

definition containsPosition :: "Range \<Rightarrow> Position \<Rightarrow> bool" where
  "containsPosition r p = (\<not> isBefore p (start r) \<and> \<not> isBefore (end' r) p)"

definition contains :: "Range \<Rightarrow> Range \<Rightarrow> bool" where
  "contains r other = (containsPosition r (start other) \<and> containsPosition r (end' other))"

text \<open>
  Lines 259 to 272 for one reference. Line 267 sorts a copy of the array
  (\<^verbatim>\<open>documentSymbols.slice(0)\<close>) and drops the array \<^verbatim>\<open>sortBy\<close> returns; \<^verbatim>\<open>find\<close> at line
  268 searches \<^verbatim>\<open>documentSymbols\<close> itself, in the order it is stored.
\<close>

definition referencingSymbol :: "MainState \<Rightarrow> Location \<Rightarrow> ref option" where
  "referencingSymbol st reference =
     (case map_get (symbols st) (uri reference) of
        None \<Rightarrow> None
      | Some documentSymbols \<Rightarrow>
          (let referenceRange = Range_fromPlain (range reference)
           in find (\<lambda>r. contains (Range_fromPlain (declaredRange (heap st r))) referenceRange)
                documentSymbols))"

text \<open>
  The inner loop: a reference with no stored document or no containing symbol is
  skipped, every other one is pushed (also after the log message of line 280).
\<close>

definition referencingSymbols :: "MainState \<Rightarrow> Location list \<Rightarrow> ref list" where
  "referencingSymbols st references = List.map_filter (referencingSymbol st) references"

fun symbolToSymbolReferences ::
  "MainState \<Rightarrow> (ref \<times> Location list) list \<Rightarrow> (ref \<times> ref list) list
     \<Rightarrow> (ref \<times> ref list) list" where
  "symbolToSymbolReferences st [] acc = acc"
| "symbolToSymbolReferences st ((definitionSymbol, references) # rest) acc =
     symbolToSymbolReferences st rest
       (map_set acc definitionSymbol (referencingSymbols st references))"

section \<open>The run\<close>

definition initialState :: MainState where
  "initialState =
     \<lparr>heap = (\<lambda>r. SymbolInformation [] Null None \<lparr>uri = OtherURL [], range = zeroRange\<rparr> []),
      nextRef = 0, symbols = [], allReferences = [], requests = []\<rparr>"

definition main ::
  "objectId \<Rightarrow> Provider \<Rightarrow> path \<Rightarrow> path \<Rightarrow> bool \<Rightarrow> path list \<Rightarrow> error + GXLElement list" where
  "main oid provider cwd rootPath noReferences files =
     (case processFiles provider cwd rootPath noReferences files initialState of
        Inl e \<Rightarrow> Inl e
      | Inr st \<Rightarrow>
          asGXL oid (heap st) (symbols st)
            (symbolToSymbolReferences st (allReferences st) []) rootPath)"

section \<open>Predicates of the statements\<close>

text \<open>
  \<^verbatim>\<open>object-hash\<close> returns a SHA-1 digest in hexadecimal: forty characters, none of them a
  colon. This is all the theorems below assume of \<open>objectId\<close>.
\<close>

definition hexDigest :: "objectId \<Rightarrow> bool" where
  "hexDigest oid = (\<forall>v. length (oid v) = 40 \<and> set (oid v) \<subseteq> set ''0123456789abcdef'')"

definition isDependencyEdge :: "GXLElement \<Rightarrow> bool" where
  "isDependencyEdge e =
     (case e of GXLEdge f t ty \<Rightarrow> ty = Source_Dependency | GXLNode i ty a \<Rightarrow> False)"

definition isNode :: "GXLElement \<Rightarrow> bool" where
  "isNode e = (case e of GXLEdge f t ty \<Rightarrow> False | GXLNode i ty a \<Rightarrow> True)"

text \<open>\<^verbatim>\<open>fileURLToPath\<close> returns a path for the URI.\<close>

definition accepted :: "uri \<Rightarrow> bool" where
  "accepted u = (case fileURLToPath u of Inl e \<Rightarrow> False | Inr p \<Rightarrow> True)"

text \<open>
  A document that makes the builder's loop throw: it holds a symbol of a kind that is
  not excluded, and \<^verbatim>\<open>fileURLToPath\<close> throws on its URI.
\<close>

definition throwingDocument :: "store \<Rightarrow> uri \<times> ref list \<Rightarrow> bool" where
  "throwingDocument h d =
     (list_ex (\<lambda>r. getGXLSymbolKind (h r) \<noteq> None) (snd d) \<and> \<not> accepted (fst d))"

definition referencesOf :: "(ref \<times> ref list) list \<Rightarrow> ref \<Rightarrow> ref list" where
  "referencesOf refs r = (case map_get refs r of Some rs \<Rightarrow> rs | None \<Rightarrow> [])"

text \<open>
  What the builder's loop keeps true: every node id holds a colon, no \<^verbatim>\<open>from\<close> of a
  recorded edge does, and a graph with a \<^verbatim>\<open>Source_Dependency\<close> edge has a recorded edge.
\<close>

definition builderInv :: "GXLState \<Rightarrow> bool" where
  "builderInv st =
     (list_all (\<lambda>n. CHR '':'' \<in> set n) (nodeIds st) \<and>
      list_all (\<lambda>e. CHR '':'' \<notin> set (fst e)) (edgeNodeIds st) \<and>
      (edgeNodeIds st = [] \<longrightarrow> \<not> list_ex isDependencyEdge (graphElement st)))"





section \<open>Sample inputs\<close>

text \<open>
  A stand-in for \<^verbatim>\<open>object-hash\<close> in the closed examples: forty hexadecimal digits
  computed from every field of the value. The theorems that speak of every \<open>objectId\<close>
  do not depend on it.
\<close>

fun kindNumber :: "SymbolKind \<Rightarrow> nat" where
  "kindNumber File = 1" | "kindNumber Module = 2" | "kindNumber Namespace = 3"
| "kindNumber Package = 4" | "kindNumber Class = 5" | "kindNumber Method = 6"
| "kindNumber Property = 7" | "kindNumber Field = 8" | "kindNumber Constructor = 9"
| "kindNumber Enum = 10" | "kindNumber Interface = 11" | "kindNumber Function = 12"
| "kindNumber Variable = 13" | "kindNumber Constant = 14" | "kindNumber String = 15"
| "kindNumber Number = 16" | "kindNumber Boolean = 17" | "kindNumber Array = 18"
| "kindNumber Object = 19" | "kindNumber Key = 20" | "kindNumber Null = 21"
| "kindNumber EnumMember = 22" | "kindNumber Struct = 23" | "kindNumber Event = 24"
| "kindNumber Operator = 25" | "kindNumber TypeParameter = 26"

definition codeString :: "string \<Rightarrow> nat list" where
  "codeString s = length s # map of_char s"

definition codeRange :: "Range \<Rightarrow> nat list" where
  "codeRange r = [line (start r), character (start r), line (end' r), character (end' r)]"

fun codeUri :: "uri \<Rightarrow> nat list" where
  "codeUri (FileURL p) = 0 # length p # concat (map codeString p)"
| "codeUri (SpelledFileURL s p) = 2 # codeString s"
| "codeUri (OtherURL s) = 1 # codeString s"

fun codeSymbol :: "LSPSymbol \<Rightarrow> nat list" where
  "codeSymbol (SymbolInformation n k c l os) =
     0 # codeString n @ [kindNumber k] @
     (case c of None \<Rightarrow> [0] | Some s \<Rightarrow> 1 # codeString s) @
     codeUri (uri l) @ codeRange (range l) @
     length os # concat (map (\<lambda>p. codeString (fst p) @ codeString (snd p)) os)"
| "codeSymbol (DocumentSymbol n k r sr cs os) =
     1 # codeString n @ [kindNumber k] @ codeRange r @ codeRange sr @
     length cs # concat (map codeSymbol cs) @
     length os # concat (map (\<lambda>p. codeString (fst p) @ codeString (snd p)) os)"

fun codeHashed :: "hashed \<Rightarrow> nat list" where
  "codeHashed (HSymbol s) = 0 # codeSymbol s"
| "codeHashed (HSymbols ss) = 1 # length ss # concat (map codeSymbol ss)"

definition hexDigit :: "nat \<Rightarrow> char" where
  "hexDigit d = ''0123456789abcdef'' ! (d mod 16)"

fun digestStep :: "nat list \<Rightarrow> nat \<Rightarrow> nat list" where
  "digestStep [] x = []"
| "digestStep (d # ds) x = ds @ [(d + x) mod 16]"

definition sampleObjectId :: objectId where
  "sampleObjectId v = map hexDigit (foldl digestStep (replicate 40 0) (codeHashed v))"

definition quietProvider :: Provider where
  "quietProvider =
     \<lparr>documentSymbolRequest = (\<lambda>u. []), readFile = (\<lambda>p. []),
      referencesRequest = (\<lambda>p. [])\<rparr>"

definition moduleUri :: uri where
  "moduleUri = FileURL [''r'', ''m.py'']"

definition fooSymbol :: LSPSymbol where
  "fooSymbol = SymbolInformation ''foo'' Function None
     \<lparr>uri = moduleUri,
      range = \<lparr>start = \<lparr>line = 0, character = 0\<rparr>, end' = \<lparr>line = 1, character = 8\<rparr>\<rparr>\<rparr> []"


definition classSymbol :: LSPSymbol where
  "classSymbol = SymbolInformation ''C'' Class None
     \<lparr>uri = moduleUri,
      range = \<lparr>start = \<lparr>line = 0, character = 0\<rparr>, end' = \<lparr>line = 20, character = 0\<rparr>\<rparr>\<rparr> []"

definition methodSymbol :: LSPSymbol where
  "methodSymbol = SymbolInformation ''m'' Method (Some ''C'')
     \<lparr>uri = moduleUri,
      range = \<lparr>start = \<lparr>line = 5, character = 0\<rparr>, end' = \<lparr>line = 10, character = 0\<rparr>\<rparr>\<rparr> []"

definition moduleFileSymbol :: LSPSymbol where
  "moduleFileSymbol =
     SymbolInformation ''m.py'' File (Some ''.'') \<lparr>uri = moduleUri, range = zeroRange\<rparr> []"

text \<open>
  Three symbols with the same name, kind, range and document: \<open>symB\<close> differs from
  \<open>symA\<close> in the container name, \<open>symC\<close> in the property \<^verbatim>\<open>deprecated\<close>.
\<close>

definition symA :: LSPSymbol where
  "symA = SymbolInformation ''f'' Function (Some ''A'')
     \<lparr>uri = moduleUri,
      range = \<lparr>start = \<lparr>line = 1, character = 0\<rparr>, end' = \<lparr>line = 2, character = 0\<rparr>\<rparr>\<rparr> []"

definition symB :: LSPSymbol where
  "symB = SymbolInformation ''f'' Function (Some ''B'')
     \<lparr>uri = moduleUri,
      range = \<lparr>start = \<lparr>line = 1, character = 0\<rparr>, end' = \<lparr>line = 2, character = 0\<rparr>\<rparr>\<rparr> []"

definition symC :: LSPSymbol where
  "symC = SymbolInformation ''f'' Function (Some ''A'')
     \<lparr>uri = moduleUri,
      range = \<lparr>start = \<lparr>line = 1, character = 0\<rparr>, end' = \<lparr>line = 2, character = 0\<rparr>\<rparr>\<rparr>
     [(''deprecated'', ''true'')]"

text \<open>The directory symbols of \<^verbatim>\<open>/r/a\<close> and \<^verbatim>\<open>/r\<close>.\<close>

definition dirA :: LSPSymbol where
  "dirA = directorySymbol ['''', ''r'', ''a''] (FileURL [''r'', ''a''])"

definition dirR :: LSPSymbol where
  "dirR = directorySymbol ['''', ''r''] (FileURL [''r''])"

text \<open>Providers for the one file \<^verbatim>\<open>/r/m.py\<close>.\<close>

definition defProvider :: Provider where
  "defProvider =
     \<lparr>documentSymbolRequest = (\<lambda>u. if u = moduleUri then [fooSymbol] else []),
      readFile = (\<lambda>p. ''def foo():'' @ [CHR 0x0A] @ ''    pass''),
      referencesRequest = (\<lambda>p. [])\<rparr>"


text \<open>The file \<^verbatim>\<open>/r/m.py\<close> with a given text, the symbol of line 0 at column 0.\<close>

definition lineProvider :: "string \<Rightarrow> Provider" where
  "lineProvider content =
     \<lparr>documentSymbolRequest = (\<lambda>u. if u = moduleUri then [fooSymbol] else []),
      readFile = (\<lambda>p. content),
      referencesRequest = (\<lambda>p. [])\<rparr>"

definition nestedProvider :: "LSPSymbol list \<Rightarrow> Provider" where
  "nestedProvider listed =
     \<lparr>documentSymbolRequest = (\<lambda>u. if u = moduleUri then listed else []),
      readFile = (\<lambda>p. []), referencesRequest = (\<lambda>p. [])\<rparr>"

text \<open>A reference on line 6, inside the class (lines 0 to 20) and the method (5 to 10).\<close>

definition pointInBoth :: Location where
  "pointInBoth =
     \<lparr>uri = moduleUri,
      range = \<lparr>start = \<lparr>line = 6, character = 0\<rparr>, end' = \<lparr>line = 6, character = 3\<rparr>\<rparr>\<rparr>"

text \<open>
  The symbol the resolver finds for a reference after \<^verbatim>\<open>/r/m.py\<close> has been processed
  under the root \<^verbatim>\<open>/r\<close> (without reference lookup).
\<close>

definition resolvedIn :: "Provider \<Rightarrow> Location \<Rightarrow> LSPSymbol option" where
  "resolvedIn provider reference =
     (case processFile provider [''home''] [''r''] True [''r'', ''m.py''] initialState of
        Inl e \<Rightarrow> None
      | Inr (docSymbols, st) \<Rightarrow> map_option (heap st) (referencingSymbol st reference))"

definition defRun :: "error + (ref list \<times> MainState)" where
  "defRun = processFile defProvider [''home''] [''r''] False [''r'', ''m.py''] initialState"




definition fooState :: MainState where
  "fooState = snd (new_object fooSymbol initialState)"


definition visitedOnce :: MainState where
  "visitedOnce = addDirectories [''home''] [''a'', ''b'']
     (path_split [''a'', ''b'', ''c'', ''d.py'']) initialState"

text \<open>Object stores for calls of the builder alone.\<close>

definition twoDocStore :: store where
  "twoDocStore r = (if r = 0 then fooSymbol else classSymbol)"

text \<open>
  Two objects with the same content, the node of such an object in the document
  \<^verbatim>\<open>/r/m.py\<close> under the root \<^verbatim>\<open>/r\<close>, and the state of the builder after its loop over
  the two.
\<close>

definition dupStore :: store where
  "dupStore r = fooSymbol"

definition fooNode :: GXLElement where
  "fooNode = GXLNode (nodeID sampleObjectId fooSymbol) ''Routine''
     \<lparr>Source_Name = ''foo'', Source_Line = 0, Source_Column = 0, Source_Path = ''m.py''\<rparr>"

definition dupGraph :: GXLState where
  "dupGraph = \<lparr>nodeIds = [nodeID sampleObjectId fooSymbol], edgeNodeIds = [],
                graphElement = [fooNode, fooNode]\<rparr>"

definition memberStore :: store where
  "memberStore r =
     (if r = 0 then moduleFileSymbol else if r = 1 then classSymbol else methodSymbol)"

section \<open>The sample digest\<close>

lemma hexDigit_hex: "hexDigit d \<in> set ''0123456789abcdef''"
proof -
  have "d mod 16 < 16" by simp
  also have "16 = length ''0123456789abcdef''" by simp
  finally show ?thesis unfolding hexDigit_def by (rule nth_mem)
qed

lemma digestStep_length: "length (digestStep acc x) = length acc"
  by (cases acc) simp_all

lemma foldl_digestStep_length: "length (foldl digestStep acc xs) = length acc"
  by (induction xs arbitrary: acc) (simp_all add: digestStep_length)

lemma hexDigest_sample: "hexDigest sampleObjectId"
  unfolding hexDigest_def sampleObjectId_def
  using hexDigit_hex by (auto simp: foldl_digestStep_length)

section \<open>The builder's loop\<close>

lemma hexDigest_no_colon: "hexDigest oid \<Longrightarrow> CHR '':'' \<notin> set (oid v)"
  unfolding hexDigest_def by (auto dest!: spec[of _ v])

lemma nodeID_colon: "CHR '':'' \<in> set (nodeID oid s)"
  by (simp add: nodeID_def)

lemma addReferences_nodeIds [simp]:
  "nodeIds (addReferences oid h nid rs st) = nodeIds st"
  by (induction rs arbitrary: st) (simp_all add: Let_def)

lemma addReferences_edgeNodeIds [simp]:
  "edgeNodeIds (addReferences oid h nid rs st) =
     edgeNodeIds st @ map (\<lambda>r. (oid (HSymbol (h r)), nid)) rs"
  by (induction rs arbitrary: st) (simp_all add: Let_def)

lemma addReferences_graphElement [simp]:
  "graphElement (addReferences oid h nid rs st) =
     graphElement st @ map (\<lambda>r. GXLEdge (oid (HSymbol (h r))) nid Source_Dependency) rs"
  by (induction rs arbitrary: st) (simp_all add: Let_def)

lemma asGXL_symbol_Inr:
  assumes "asGXL_symbol oid h sbf refs root u syms r st = Inr st'"
  shows "st' = st \<or>
    (nodeIds st' = List.insert (nodeID oid (h r)) (nodeIds st) \<and>
     edgeNodeIds st' =
       edgeNodeIds st @ map (\<lambda>x. (oid (HSymbol (h x)), nodeID oid (h r))) (referencesOf refs r) \<and>
     (\<exists>pre. \<not> list_ex isDependencyEdge pre \<and>
        graphElement st' =
          graphElement st @ pre @
          map (\<lambda>x. GXLEdge (oid (HSymbol (h x))) (nodeID oid (h r)) Source_Dependency)
            (referencesOf refs r)))"
proof (cases "getGXLSymbolKind (h r)")
  case None
  with assms show ?thesis by (simp add: asGXL_symbol_def)
next
  case (Some ty)
  from assms Some obtain p where p: "fileURLToPath u = Inr p"
    by (auto simp: asGXL_symbol_def Let_def split: sum.splits)
  let ?node = "GXLNode (nodeID oid (h r)) ty
      \<lparr>Source_Name = name (h r), Source_Line = line (start (declaredRange (h r))),
       Source_Column = character (start (declaredRange (h r))),
       Source_Path = path_relative root p\<rparr>"
  let ?pre = "(if kind (h r) = File then
                 (case fileEdge oid h sbf root p (h r) of Some e \<Rightarrow> [e] | None \<Rightarrow> [])
               else []) @ [?node]"
  have 1: "\<not> list_ex isDependencyEdge ?pre"
    by (auto simp: isDependencyEdge_def fileEdge_def Let_def split: option.splits)
  have 2: "graphElement st' = graphElement st @ ?pre @
          map (\<lambda>x. GXLEdge (oid (HSymbol (h x))) (nodeID oid (h r)) Source_Dependency)
            (referencesOf refs r)"
    using assms Some p
    by (auto simp: asGXL_symbol_def Let_def referencesOf_def split: option.splits)
  have 3: "nodeIds st' = List.insert (nodeID oid (h r)) (nodeIds st)"
    using assms Some p
    by (auto simp: asGXL_symbol_def Let_def referencesOf_def split: option.splits)
  have 4: "edgeNodeIds st' =
       edgeNodeIds st @ map (\<lambda>x. (oid (HSymbol (h x)), nodeID oid (h r))) (referencesOf refs r)"
    using assms Some p
    by (auto simp: asGXL_symbol_def Let_def referencesOf_def split: option.splits)
  from 1 2 3 4 show ?thesis by blast
qed

lemma asGXL_symbol_inv:
  assumes "hexDigest oid" "builderInv st"
    "asGXL_symbol oid h sbf refs root u syms r st = Inr st'"
  shows "builderInv st'"
proof -
  have nc: "\<And>v. CHR '':'' \<notin> set (oid v)"
    using hexDigest_no_colon[OF assms(1)] .
  from asGXL_symbol_Inr[OF assms(3)] show ?thesis
  proof
    assume "st' = st" with assms(2) show ?thesis by simp
  next
    assume a: "nodeIds st' = List.insert (nodeID oid (h r)) (nodeIds st) \<and>
     edgeNodeIds st' =
       edgeNodeIds st @ map (\<lambda>x. (oid (HSymbol (h x)), nodeID oid (h r))) (referencesOf refs r) \<and>
     (\<exists>pre. \<not> list_ex isDependencyEdge pre \<and>
        graphElement st' =
          graphElement st @ pre @
          map (\<lambda>x. GXLEdge (oid (HSymbol (h x))) (nodeID oid (h r)) Source_Dependency)
            (referencesOf refs r))"
    then obtain pre where pre: "\<not> list_ex isDependencyEdge pre"
      and g: "graphElement st' = graphElement st @ pre @
          map (\<lambda>x. GXLEdge (oid (HSymbol (h x))) (nodeID oid (h r)) Source_Dependency)
            (referencesOf refs r)"
      by blast
    have i1: "list_all (\<lambda>n. CHR '':'' \<in> set n) (nodeIds st')"
      using a assms(2) by (simp add: builderInv_def list_all_iff nodeID_colon)
    have i2: "list_all (\<lambda>e. CHR '':'' \<notin> set (fst e)) (edgeNodeIds st')"
      using a assms(2) nc by (auto simp: builderInv_def list_all_iff)
    have i3: "edgeNodeIds st' = [] \<longrightarrow> \<not> list_ex isDependencyEdge (graphElement st')"
      using a assms(2) pre g by (auto simp: builderInv_def list_ex_iff)
    from i1 i2 i3 show ?thesis by (simp add: builderInv_def)
  qed
qed

lemma asGXL_symbol_edges_mono:
  assumes "asGXL_symbol oid h sbf refs root u syms r st = Inr st'" "edgeNodeIds st \<noteq> []"
  shows "edgeNodeIds st' \<noteq> []"
  using assms unfolding asGXL_symbol_def
  by (auto simp: Let_def split: option.splits sum.splits if_splits)

lemma asGXL_symbol_edges_new:
  assumes "asGXL_symbol oid h sbf refs root u syms r st = Inr st'"
    "getGXLSymbolKind (h r) \<noteq> None" "map_get refs r = Some (x # xs)"
  shows "edgeNodeIds st' \<noteq> []"
  using assms unfolding asGXL_symbol_def
  by (auto simp: Let_def split: option.splits sum.splits if_splits)

lemma asGXL_symbol_total:
  "accepted u \<or> getGXLSymbolKind (h r) = None
    \<Longrightarrow> \<exists>st'. asGXL_symbol oid h sbf refs root u syms r st = Inr st'"
  unfolding asGXL_symbol_def accepted_def
  by (auto simp: Let_def split: option.splits sum.splits if_splits)

lemma fileURLToPath_error: "fileURLToPath u = Inl e \<Longrightarrow> e = InvalidFileURL"
  by (cases u) auto

lemma asGXL_symbol_error:
  "asGXL_symbol oid h sbf refs root u syms r st = Inl e \<Longrightarrow> e = InvalidFileURL"
  unfolding asGXL_symbol_def
  by (auto simp: Let_def dest: fileURLToPath_error split: option.splits sum.splits if_splits)

lemma asGXL_symbol_throw:
  "\<not> accepted u \<Longrightarrow> getGXLSymbolKind (h r) \<noteq> None
    \<Longrightarrow> asGXL_symbol oid h sbf refs root u syms r st = Inl InvalidFileURL"
  unfolding asGXL_symbol_def accepted_def
  by (auto simp: Let_def dest: fileURLToPath_error split: option.splits sum.splits if_splits)

lemma asGXL_symbols_inv:
  assumes "hexDigest oid"
  shows "builderInv st \<Longrightarrow> asGXL_symbols oid h sbf refs root u syms rs st = Inr st'
    \<Longrightarrow> builderInv st'"
proof (induction rs arbitrary: st)
  case Nil then show ?case by simp
next
  case (Cons r rs)
  then show ?case
    by (auto split: sum.splits dest: asGXL_symbol_inv[OF assms])
qed

lemma asGXL_symbols_edges_mono:
  "asGXL_symbols oid h sbf refs root u syms rs st = Inr st' \<Longrightarrow> edgeNodeIds st \<noteq> []
    \<Longrightarrow> edgeNodeIds st' \<noteq> []"
proof (induction rs arbitrary: st)
  case Nil then show ?case by simp
next
  case (Cons r rs)
  then show ?case
    by (auto split: sum.splits dest: asGXL_symbol_edges_mono)
qed

lemma asGXL_symbols_edges_new:
  "asGXL_symbols oid h sbf refs root u syms rs st = Inr st' \<Longrightarrow> r \<in> set rs
    \<Longrightarrow> getGXLSymbolKind (h r) \<noteq> None \<Longrightarrow> map_get refs r = Some (x # xs)
    \<Longrightarrow> edgeNodeIds st' \<noteq> []"
proof (induction rs arbitrary: st)
  case Nil then show ?case by simp
next
  case (Cons a rs)
  from Cons.prems(1) obtain st1 where
    a: "asGXL_symbol oid h sbf refs root u syms a st = Inr st1"
    and rest: "asGXL_symbols oid h sbf refs root u syms rs st1 = Inr st'"
    by (auto split: sum.splits)
  show ?case
  proof (cases "r = a")
    case True
    with a Cons.prems have "edgeNodeIds st1 \<noteq> []"
      by (auto dest: asGXL_symbol_edges_new)
    with rest show ?thesis by (rule asGXL_symbols_edges_mono)
  next
    case False
    with Cons.prems have "r \<in> set rs" by simp
    with Cons.IH[OF rest] Cons.prems show ?thesis by simp
  qed
qed

lemma asGXL_symbols_total:
  "accepted u \<or> \<not> list_ex (\<lambda>r. getGXLSymbolKind (h r) \<noteq> None) rs
    \<Longrightarrow> \<exists>st'. asGXL_symbols oid h sbf refs root u syms rs st = Inr st'"
proof (induction rs arbitrary: st)
  case Nil then show ?case by simp
next
  case (Cons r rs)
  from Cons.prems have "accepted u \<or> getGXLSymbolKind (h r) = None" by auto
  then obtain st1 where "asGXL_symbol oid h sbf refs root u syms r st = Inr st1"
    using asGXL_symbol_total by blast
  moreover from Cons.prems
  have "accepted u \<or> \<not> list_ex (\<lambda>r. getGXLSymbolKind (h r) \<noteq> None) rs" by auto
  ultimately show ?case using Cons.IH[of st1] by simp
qed

lemma asGXL_symbols_error:
  "asGXL_symbols oid h sbf refs root u syms rs st = Inl e \<Longrightarrow> e = InvalidFileURL"
proof (induction rs arbitrary: st)
  case Nil then show ?case by simp
next
  case (Cons r rs)
  then show ?case by (auto split: sum.splits dest: asGXL_symbol_error)
qed

lemma asGXL_symbols_throw:
  "\<not> accepted u \<Longrightarrow> list_ex (\<lambda>r. getGXLSymbolKind (h r) \<noteq> None) rs
    \<Longrightarrow> asGXL_symbols oid h sbf refs root u syms rs st = Inl InvalidFileURL"
proof (induction rs arbitrary: st)
  case Nil then show ?case by simp
next
  case (Cons r rs)
  show ?case
  proof (cases "getGXLSymbolKind (h r)")
    case None
    then have "asGXL_symbol oid h sbf refs root u syms r st = Inr st"
      by (simp add: asGXL_symbol_def)
    moreover from None Cons.prems
    have "list_ex (\<lambda>r. getGXLSymbolKind (h r) \<noteq> None) rs" by simp
    ultimately show ?thesis using Cons.IH[OF Cons.prems(1)] by simp
  next
    case (Some ty)
    with Cons.prems(1)
    have "asGXL_symbol oid h sbf refs root u syms r st = Inl InvalidFileURL"
      by (simp add: asGXL_symbol_throw)
    then show ?thesis by simp
  qed
qed

lemma asGXL_files_inv:
  assumes "hexDigest oid"
  shows "builderInv st \<Longrightarrow> asGXL_files oid h sbf refs root fs st = Inr st'
    \<Longrightarrow> builderInv st'"
proof (induction fs arbitrary: st)
  case Nil then show ?case by simp
next
  case (Cons f fs)
  then show ?case
    by (cases f) (auto split: sum.splits dest: asGXL_symbols_inv[OF assms])
qed

lemma asGXL_files_edges_mono:
  "asGXL_files oid h sbf refs root fs st = Inr st' \<Longrightarrow> edgeNodeIds st \<noteq> []
    \<Longrightarrow> edgeNodeIds st' \<noteq> []"
proof (induction fs arbitrary: st)
  case Nil then show ?case by simp
next
  case (Cons f fs)
  then show ?case
    by (cases f) (auto split: sum.splits dest: asGXL_symbols_edges_mono)
qed

lemma asGXL_files_edges_new:
  "asGXL_files oid h sbf refs root fs st = Inr st' \<Longrightarrow> (u, syms) \<in> set fs
    \<Longrightarrow> r \<in> set syms
    \<Longrightarrow> getGXLSymbolKind (h r) \<noteq> None \<Longrightarrow> map_get refs r = Some (x # xs)
    \<Longrightarrow> edgeNodeIds st' \<noteq> []"
proof (induction fs arbitrary: st)
  case Nil then show ?case by simp
next
  case (Cons f fs)
  obtain v ss where f: "f = (v, ss)" by (cases f)
  from Cons.prems(1) f obtain st1 where
    a: "asGXL_symbols oid h sbf refs root v ss ss st = Inr st1"
    and rest: "asGXL_files oid h sbf refs root fs st1 = Inr st'"
    by (auto split: sum.splits)
  show ?case
  proof (cases "(u, syms) = f")
    case True
    with a f Cons.prems have "edgeNodeIds st1 \<noteq> []"
      by (auto dest: asGXL_symbols_edges_new)
    with rest show ?thesis by (rule asGXL_files_edges_mono)
  next
    case False
    with Cons.prems have "(u, syms) \<in> set fs" by auto
    with Cons.IH[OF rest] Cons.prems show ?thesis by simp
  qed
qed

lemma asGXL_files_total:
  "\<not> list_ex (throwingDocument h) fs \<Longrightarrow>
     \<exists>st'. asGXL_files oid h sbf refs root fs st = Inr st'"
proof (induction fs arbitrary: st)
  case Nil then show ?case by simp
next
  case (Cons f fs)
  obtain v ss where f: "f = (v, ss)" by (cases f)
  with Cons.prems
  have "accepted v \<or> \<not> list_ex (\<lambda>r. getGXLSymbolKind (h r) \<noteq> None) ss"
    by (auto simp: throwingDocument_def)
  then obtain st1 where "asGXL_symbols oid h sbf refs root v ss ss st = Inr st1"
    using asGXL_symbols_total by blast
  with Cons.IH[of st1] Cons.prems f show ?case by simp
qed

lemma asGXL_files_throw:
  "list_ex (throwingDocument h) fs \<Longrightarrow>
     asGXL_files oid h sbf refs root fs st = Inl InvalidFileURL"
proof (induction fs arbitrary: st)
  case Nil then show ?case by simp
next
  case (Cons f fs)
  obtain v ss where f: "f = (v, ss)" by (cases f)
  show ?case
  proof (cases "asGXL_symbols oid h sbf refs root v ss ss st")
    case (Inl e)
    then have "e = InvalidFileURL" by (rule asGXL_symbols_error)
    with Inl f show ?thesis by simp
  next
    case (Inr st1)
    have "\<not> throwingDocument h f"
    proof
      assume "throwingDocument h f"
      with f have "asGXL_symbols oid h sbf refs root v ss ss st = Inl InvalidFileURL"
        by (simp add: throwingDocument_def asGXL_symbols_throw)
      with Inr show False by simp
    qed
    with Cons.prems have "list_ex (throwingDocument h) fs" by simp
    from Cons.IH[OF this] Inr f show ?thesis by simp
  qed
qed

lemma builderInv_init: "builderInv \<lparr>nodeIds = [], edgeNodeIds = [], graphElement = []\<rparr>"
  by (simp add: builderInv_def)

lemma verified_no_edges:
  assumes "builderInv st" "verified st"
  shows "edgeNodeIds st = []"
proof (cases "edgeNodeIds st")
  case Nil then show ?thesis .
next
  case (Cons e es)
  with assms(2) have "fst e \<in> set (nodeIds st)"
    by (simp add: verified_def)
  with assms(1) have "CHR '':'' \<in> set (fst e)"
    by (auto simp: builderInv_def list_all_iff)
  moreover from assms(1) Cons have "CHR '':'' \<notin> set (fst e)"
    by (simp add: builderInv_def)
  ultimately show ?thesis by simp
qed

section \<open>Paths and the directory loop\<close>










lemma map_get_map_set_other: "u \<noteq> k \<Longrightarrow> map_get (map_set m k v) u = map_get m u"
  by (induction m) (auto simp: map_get_def)

lemma addDirectories_keeps:
  "map_has (symbols st) u \<Longrightarrow>
     map_get (symbols (addDirectories cwd root segs st)) u = map_get (symbols st) u"
proof (induction cwd root segs st rule: addDirectories.induct)
  case (1 cwd rootPath segments st)
  show ?case
  proof (cases "segments = [] \<or> last segments = []")
    case True
    then show ?thesis by (subst addDirectories.simps) simp
  next
    case stop: False
    let ?dir = "resolve_joined cwd (butlast segments)"
    show ?thesis
    proof (cases "outsideRoot (path_relative rootPath ?dir)")
      case True
      with stop show ?thesis by (subst addDirectories.simps) (simp add: Let_def)
    next
      case False
      define st' where "st' =
        (if \<not> map_has (symbols st) (pathToFileURL ?dir) then
           (let (r, st1) = new_object (directorySymbol (butlast segments) (pathToFileURL ?dir)) st
            in st1\<lparr>symbols := map_set (symbols st1) (pathToFileURL ?dir) [r]\<rparr>)
         else st)"
      have step: "addDirectories cwd rootPath segments st
          = addDirectories cwd rootPath (butlast segments) st'"
        using stop False
        by (subst addDirectories.simps) (simp add: Let_def st'_def)
      have g: "map_get (symbols st') u = map_get (symbols st) u"
      proof (cases "map_has (symbols st) (pathToFileURL ?dir)")
        case True
        then show ?thesis by (simp add: st'_def)
      next
        case False
        with "1.prems" have "u \<noteq> pathToFileURL ?dir" by auto
        then show ?thesis
          using False by (simp add: st'_def new_object_def map_get_map_set_other)
      qed
      with "1.prems" have h: "map_has (symbols st') u"
        by (simp add: map_has_def map_get_def)
      have "map_get (symbols (addDirectories cwd rootPath (butlast segments) st')) u
          = map_get (symbols st') u"
        using "1.IH"[OF stop refl refl refl False refl, of st'] h by (simp add: st'_def)
      with g show ?thesis unfolding step by simp
    qed
  qed
qed

section \<open>Objects and reference lookup\<close>




lemma addDirectories_frame:
  "allReferences (addDirectories cwd root segs st) = allReferences st \<and>
   requests (addDirectories cwd root segs st) = requests st \<and>
   nextRef st \<le> nextRef (addDirectories cwd root segs st) \<and>
   (\<forall>r < nextRef st. heap (addDirectories cwd root segs st) r = heap st r)"
proof (induction cwd root segs st rule: addDirectories.induct)
  case (1 cwd rootPath segments st)
  show ?case
  proof (cases "segments = [] \<or> last segments = []")
    case True
    then show ?thesis by (subst (1 2 3 4) addDirectories.simps) simp
  next
    case stop: False
    let ?dir = "resolve_joined cwd (butlast segments)"
    show ?thesis
    proof (cases "outsideRoot (path_relative rootPath ?dir)")
      case True
      with stop show ?thesis by (subst (1 2 3 4) addDirectories.simps) (simp add: Let_def)
    next
      case False
      define st' where "st' =
        (if \<not> map_has (symbols st) (pathToFileURL ?dir) then
           (let (r, st1) = new_object (directorySymbol (butlast segments) (pathToFileURL ?dir)) st
            in st1\<lparr>symbols := map_set (symbols st1) (pathToFileURL ?dir) [r]\<rparr>)
         else st)"
      have step: "addDirectories cwd rootPath segments st
          = addDirectories cwd rootPath (butlast segments) st'"
        using stop False
        by (subst addDirectories.simps) (simp add: Let_def st'_def)
      have ih: "allReferences (addDirectories cwd rootPath (butlast segments) st')
            = allReferences st' \<and>
          requests (addDirectories cwd rootPath (butlast segments) st') = requests st' \<and>
          nextRef st' \<le> nextRef (addDirectories cwd rootPath (butlast segments) st') \<and>
          (\<forall>r < nextRef st'. heap (addDirectories cwd rootPath (butlast segments) st') r
             = heap st' r)"
        using "1.IH"[OF stop refl refl refl False refl, of st'] by (simp add: st'_def)
      have f: "allReferences st' = allReferences st \<and> requests st' = requests st \<and>
          nextRef st \<le> nextRef st' \<and> (\<forall>r < nextRef st. heap st' r = heap st r)"
        by (simp add: st'_def new_object_def)
      from ih f show ?thesis unfolding step by auto
    qed
  qed
qed










lemma skipKeywords_columns:
  "skipKeywords lineContent ch =
     (if startsWith (drop ch lineContent) ''def '' then
        (if startsWith (drop (ch + 5) lineContent) ''class '' then ch + 12 else ch + 5)
      else if startsWith (drop ch lineContent) ''class '' then ch + 7 else ch)"
proof -
  have a: "ch + (length ''def '' + 1) = ch + 5" by simp
  have b: "\<And>c. c + (length ''class '' + 1) = c + 7" by simp
  have c: "ch + 5 + 7 = ch + 12" by simp
  show ?thesis
  proof (cases "startsWith (drop ch lineContent) ''def ''")
    case d: True
    show ?thesis
    proof (cases "startsWith (drop (ch + 5) lineContent) ''class ''")
      case True
      with d show ?thesis
        unfolding skipKeywords_def Let_def a b by (simp only: if_True if_False c)
    next
      case False
      with d show ?thesis
        unfolding skipKeywords_def Let_def a b by (simp only: if_True if_False)
    qed
  next
    case d: False
    show ?thesis
    proof (cases "startsWith (drop ch lineContent) ''class ''")
      case True
      with d show ?thesis
        unfolding skipKeywords_def Let_def a b by (simp only: if_True if_False)
    next
      case False
      with d show ?thesis
        unfolding skipKeywords_def Let_def a b by (simp only: if_True if_False)
    qed
  qed
qed

lemma getReferences_request:
  assumes "getGXLSymbolKind (heap st r) \<noteq> None"
    and "nth_opt (split_lines (readFile provider filePath))
           (line (start (lookupRange (heap st r)))) = Some lineContent"
    and "\<not> matches_import lineContent"
  shows "\<exists>st'. getReferences provider filePath u r st = Inr st' \<and>
     requests st' = requests st @
       [\<lparr>textDocument = u,
         position = \<lparr>line = line (start (lookupRange (heap st r))),
                     character = skipKeywords lineContent
                                   (character (start (lookupRange (heap st r))))\<rparr>\<rparr>]"
  using assms unfolding getReferences_def by (simp add: Let_def)

section \<open>The nodes of the graph\<close>

lemma filter_isNode_dependency [simp]:
  "filter isNode (map (\<lambda>x. GXLEdge (f x) t ty) xs) = []"
  by (induction xs) (simp_all add: isNode_def)

lemma asGXL_symbol_nodes:
  assumes "asGXL_symbol oid h sbf refs root u syms r st = Inr st'"
  shows "map node_id (filter isNode (graphElement st')) =
           map node_id (filter isNode (graphElement st)) @
           map (nodeID oid \<circ> h) (filter (\<lambda>r. getGXLSymbolKind (h r) \<noteq> None) [r])"
    and "set (nodeIds st') =
           set (nodeIds st) \<union>
           set (map (nodeID oid \<circ> h) (filter (\<lambda>r. getGXLSymbolKind (h r) \<noteq> None) [r]))"
    and "distinct (nodeIds st) \<Longrightarrow> distinct (nodeIds st')"
  using assms unfolding asGXL_symbol_def
  by (auto simp: Let_def isNode_def fileEdge_def split: option.splits sum.splits if_splits)

lemma asGXL_symbols_nodes:
  "asGXL_symbols oid h sbf refs root u syms rs st = Inr st' \<Longrightarrow>
     map node_id (filter isNode (graphElement st')) =
       map node_id (filter isNode (graphElement st)) @
       map (nodeID oid \<circ> h) (filter (\<lambda>r. getGXLSymbolKind (h r) \<noteq> None) rs) \<and>
     set (nodeIds st') =
       set (nodeIds st) \<union>
       set (map (nodeID oid \<circ> h) (filter (\<lambda>r. getGXLSymbolKind (h r) \<noteq> None) rs)) \<and>
     (distinct (nodeIds st) \<longrightarrow> distinct (nodeIds st'))"
proof (induction rs arbitrary: st)
  case Nil then show ?case by simp
next
  case (Cons r rs)
  from Cons.prems obtain st1 where
    a: "asGXL_symbol oid h sbf refs root u syms r st = Inr st1"
    and b: "asGXL_symbols oid h sbf refs root u syms rs st1 = Inr st'"
    by (auto split: sum.splits)
  note n = asGXL_symbol_nodes[OF a]
  note i = Cons.IH[OF b]
  have 1: "map node_id (filter isNode (graphElement st')) =
       map node_id (filter isNode (graphElement st)) @
       map (nodeID oid \<circ> h) (filter (\<lambda>r. getGXLSymbolKind (h r) \<noteq> None) (r # rs))"
    using i n(1) by simp
  have 2: "set (nodeIds st') =
       set (nodeIds st) \<union>
       set (map (nodeID oid \<circ> h) (filter (\<lambda>r. getGXLSymbolKind (h r) \<noteq> None) (r # rs)))"
    using i n(2) by auto
  have 3: "distinct (nodeIds st) \<longrightarrow> distinct (nodeIds st')"
    using i n(3) by blast
  from 1 2 3 show ?case by blast
qed

lemma asGXL_files_nodes:
  "asGXL_files oid h sbf refs root fs st = Inr st' \<Longrightarrow>
     map node_id (filter isNode (graphElement st')) =
       map node_id (filter isNode (graphElement st)) @
       map (nodeID oid \<circ> h)
         (filter (\<lambda>r. getGXLSymbolKind (h r) \<noteq> None) (concat (map snd fs))) \<and>
     set (nodeIds st') =
       set (nodeIds st) \<union>
       set (map (nodeID oid \<circ> h)
              (filter (\<lambda>r. getGXLSymbolKind (h r) \<noteq> None) (concat (map snd fs)))) \<and>
     (distinct (nodeIds st) \<longrightarrow> distinct (nodeIds st'))"
proof (induction fs arbitrary: st)
  case Nil then show ?case by simp
next
  case (Cons f fs)
  obtain v ss where f: "f = (v, ss)" by (cases f)
  from Cons.prems f obtain st1 where
    a: "asGXL_symbols oid h sbf refs root v ss ss st = Inr st1"
    and b: "asGXL_files oid h sbf refs root fs st1 = Inr st'"
    by (auto split: sum.splits)
  note n = asGXL_symbols_nodes[OF a]
  note i = Cons.IH[OF b]
  have 1: "map node_id (filter isNode (graphElement st')) =
       map node_id (filter isNode (graphElement st)) @
       map (nodeID oid \<circ> h)
         (filter (\<lambda>r. getGXLSymbolKind (h r) \<noteq> None) (concat (map snd (f # fs))))"
    using i n f by simp
  have 2: "set (nodeIds st') =
       set (nodeIds st) \<union>
       set (map (nodeID oid \<circ> h)
              (filter (\<lambda>r. getGXLSymbolKind (h r) \<noteq> None) (concat (map snd (f # fs)))))"
    using i n f by auto
  have 3: "distinct (nodeIds st) \<longrightarrow> distinct (nodeIds st')"
    using i n by blast
  from 1 2 3 show ?case by blast
qed

section \<open>The visits of the directory loop\<close>
















section \<open>The claims\<close>

text \<open>
  Claim C1 (the code departs from it). The claim: in every graph the builder returns,
  both ends of every edge, \<^verbatim>\<open>Enclosing\<close> edges included, are ids of emitted nodes. The run
  below (root \<^verbatim>\<open>/r\<close>, one file \<^verbatim>\<open>/r/a/m.py\<close>, a provider that reports no symbols) returns a
  graph whose \<^verbatim>\<open>Enclosing\<close> edge ends at the digest of the array stored for \<^verbatim>\<open>/r\<close>, which
  is the id of neither node: the edge is never recorded for the verification pass.
\<close>

theorem enclosing_edge_not_verified:
  assumes "hexDigest oid"
  shows "main oid quietProvider [''home''] [''r''] False [[''r'', ''a'', ''m.py'']] =
     Inr [GXLEdge (nodeID oid dirA) (oid (HSymbols [dirR])) Enclosing,
          GXLNode (nodeID oid dirA) ''File''
            \<lparr>Source_Name = ''a'', Source_Line = 0, Source_Column = 0, Source_Path = ''a''\<rparr>,
          GXLNode (nodeID oid dirR) ''File''
            \<lparr>Source_Name = ''r'', Source_Line = 0, Source_Column = 0, Source_Path = []\<rparr>] \<and>
     oid (HSymbols [dirR]) \<notin> set [nodeID oid dirA, nodeID oid dirR]"
proof -
  have "main oid quietProvider [''home''] [''r''] False [[''r'', ''a'', ''m.py'']] =
     Inr [GXLEdge (nodeID oid dirA) (oid (HSymbols [dirR])) Enclosing,
          GXLNode (nodeID oid dirA) ''File''
            \<lparr>Source_Name = ''a'', Source_Line = 0, Source_Column = 0, Source_Path = ''a''\<rparr>,
          GXLNode (nodeID oid dirR) ''File''
            \<lparr>Source_Name = ''r'', Source_Line = 0, Source_Column = 0, Source_Path = []\<rparr>]"
    by code_simp
  moreover have "oid (HSymbols [dirR]) \<noteq> nodeID oid s" for s
    using hexDigest_no_colon[OF assms, of "HSymbols [dirR]"] nodeID_colon[of oid s] by auto
  ultimately show ?thesis by simp
qed

text \<open>The same run with the sample digest.\<close>

theorem enclosing_edge_not_verified_witness:
  "hexDigest sampleObjectId \<and>
   main sampleObjectId quietProvider [''home''] [''r''] False [[''r'', ''a'', ''m.py'']] =
     Inr [GXLEdge (nodeID sampleObjectId dirA) (sampleObjectId (HSymbols [dirR])) Enclosing,
          GXLNode (nodeID sampleObjectId dirA) ''File''
            \<lparr>Source_Name = ''a'', Source_Line = 0, Source_Column = 0, Source_Path = ''a''\<rparr>,
          GXLNode (nodeID sampleObjectId dirR) ''File''
            \<lparr>Source_Name = ''r'', Source_Line = 0, Source_Column = 0, Source_Path = []\<rparr>] \<and>
     sampleObjectId (HSymbols [dirR]) \<notin> set [nodeID sampleObjectId dirA, nodeID sampleObjectId dirR]"
  using enclosing_edge_not_verified[OF hexDigest_sample] hexDigest_sample by simp

text \<open>
  Where the claim as written fails: a symbol with a recorded reference produces its node,
  and a later document whose URI is not a file URL makes \<^verbatim>\<open>fileURLToPath\<close> throw before
  the verification pass is reached.
\<close>

theorem dependency_edge_other_error:
  "getGXLSymbolKind (twoDocStore 0) \<noteq> None \<and>
   map_get [(0, [0])] (0::ref) = Some [0::ref] \<and>
   asGXL sampleObjectId twoDocStore [(moduleUri, [0])] [(0, [0])] [''r'']
     = Inl EdgeReferencingNonExistantNode \<and>
   asGXL sampleObjectId twoDocStore
       [(moduleUri, [0]), (OtherURL ''http://x/m.py'', [1])] [(0, [0])] [''r'']
     = Inl InvalidFileURL"
  by code_simp

text \<open>
  Claim C2, as amended. The builder throws the TypeError of \<^verbatim>\<open>fileURLToPath\<close>
  exactly when that function throws on the URI of a document that holds a symbol of a
  non-excluded kind, whatever the references map holds. On every other input in which the
  references map gives at least one referencing symbol to a symbol of a non-excluded kind
  of some document, the builder throws the error of the verification pass. For every
  input, a graph the builder returns holds no \<^verbatim>\<open>Source_Dependency\<close> edge.
\<close>

theorem dependency_edge_throws:
  assumes "hexDigest oid"
  shows "(asGXL oid h symbolsByFile references rootPath = Inl InvalidFileURL
          \<longleftrightarrow> list_ex (throwingDocument h) symbolsByFile) \<and>
         (\<not> list_ex (throwingDocument h) symbolsByFile \<and> (u, syms) \<in> set symbolsByFile \<and>
          r \<in> set syms \<and> getGXLSymbolKind (h r) \<noteq> None \<and>
          map_get references r = Some (x # xs)
          \<longrightarrow> asGXL oid h symbolsByFile references rootPath
                = Inl EdgeReferencingNonExistantNode) \<and>
         (asGXL oid h symbolsByFile references rootPath = Inr g
          \<longrightarrow> \<not> list_ex isDependencyEdge g)"
proof (intro conjI impI iffI)
  assume "list_ex (throwingDocument h) symbolsByFile"
  then show "asGXL oid h symbolsByFile references rootPath = Inl InvalidFileURL"
    by (simp add: asGXL_def asGXL_files_throw)
next
  assume e: "asGXL oid h symbolsByFile references rootPath = Inl InvalidFileURL"
  let ?init = "\<lparr>nodeIds = [], edgeNodeIds = [], graphElement = []\<rparr>"
  show "list_ex (throwingDocument h) symbolsByFile"
  proof (rule ccontr)
    assume "\<not> list_ex (throwingDocument h) symbolsByFile"
    then obtain st where
      "asGXL_files oid h symbolsByFile references rootPath symbolsByFile ?init = Inr st"
      using asGXL_files_total by blast
    with e show False by (simp add: asGXL_def split: if_splits)
  qed
next
  assume a: "\<not> list_ex (throwingDocument h) symbolsByFile \<and> (u, syms) \<in> set symbolsByFile \<and>
          r \<in> set syms \<and> getGXLSymbolKind (h r) \<noteq> None \<and>
          map_get references r = Some (x # xs)"
  let ?init = "\<lparr>nodeIds = [], edgeNodeIds = [], graphElement = []\<rparr>"
  from a obtain st where
    st: "asGXL_files oid h symbolsByFile references rootPath symbolsByFile ?init = Inr st"
    using asGXL_files_total by blast
  have inv: "builderInv st"
    using asGXL_files_inv[OF assms builderInv_init st] .
  have "edgeNodeIds st \<noteq> []"
    using asGXL_files_edges_new[OF st] a by blast
  with inv have "\<not> verified st"
    using verified_no_edges by blast
  with st show "asGXL oid h symbolsByFile references rootPath
                = Inl EdgeReferencingNonExistantNode"
    by (simp add: asGXL_def)
next
  assume g: "asGXL oid h symbolsByFile references rootPath = Inr g"
  let ?init = "\<lparr>nodeIds = [], edgeNodeIds = [], graphElement = []\<rparr>"
  from g obtain st where
    st: "asGXL_files oid h symbolsByFile references rootPath symbolsByFile ?init = Inr st"
    and v: "verified st" and gg: "g = graphElement st"
    by (auto simp: asGXL_def split: sum.splits if_splits)
  have inv: "builderInv st"
    using asGXL_files_inv[OF assms builderInv_init st] .
  have "edgeNodeIds st = []" using inv v verified_no_edges by blast
  with inv gg show "\<not> list_ex isDependencyEdge g"
    by (simp add: builderInv_def)
qed

text \<open>
  A witness: one function that references itself, in a document whose URI carries a host
  (\<^verbatim>\<open>fileURLToPath\<close> throws), in the document \<^verbatim>\<open>/r/m.py\<close>, and in the same document under
  another spelling of its URI; and the document with no reference.
\<close>

theorem dependency_edge_throws_witness:
  "hexDigest sampleObjectId \<and>
   getGXLSymbolKind (twoDocStore 0) \<noteq> None \<and>
   map_get [(0, [0])] (0::ref) = Some [0::ref] \<and>
   list_ex (throwingDocument twoDocStore) [(OtherURL ''file://host/r/m.py'', [0])] \<and>
   asGXL sampleObjectId twoDocStore [(OtherURL ''file://host/r/m.py'', [0])] [(0, [0])] [''r'']
     = Inl InvalidFileURL \<and>
   \<not> list_ex (throwingDocument twoDocStore) [(moduleUri, [0])] \<and>
   asGXL sampleObjectId twoDocStore [(moduleUri, [0])] [(0, [0])] [''r'']
     = Inl EdgeReferencingNonExistantNode \<and>
   \<not> list_ex (throwingDocument twoDocStore)
       [(SpelledFileURL ''file:///r/x/../m.py'' [''r'', ''m.py''], [0])] \<and>
   asGXL sampleObjectId twoDocStore
       [(SpelledFileURL ''file:///r/x/../m.py'' [''r'', ''m.py''], [0])] [(0, [0])] [''r'']
     = Inl EdgeReferencingNonExistantNode \<and>
   asGXL sampleObjectId twoDocStore [(moduleUri, [0])] [] [''r'']
     = Inr [GXLNode (nodeID sampleObjectId fooSymbol) ''Routine''
              \<lparr>Source_Name = ''foo'', Source_Line = 0, Source_Column = 0,
               Source_Path = ''m.py''\<rparr>] \<and>
   \<not> list_ex isDependencyEdge
       [GXLNode (nodeID sampleObjectId fooSymbol) ''Routine''
              \<lparr>Source_Name = ''foo'', Source_Line = 0, Source_Column = 0,
               Source_Path = ''m.py''\<rparr>]"
proof -
  have h1: "list_ex (throwingDocument twoDocStore) [(OtherURL ''file://host/r/m.py'', [0])]"
    by code_simp
  have h2: "getGXLSymbolKind (twoDocStore 0) \<noteq> None" by code_simp
  have h3: "map_get [(0, [0])] (0::ref) = Some [0::ref]" by code_simp
  have h4: "\<not> list_ex (throwingDocument twoDocStore) [(moduleUri, [0])]" by code_simp
  have h5: "\<not> list_ex (throwingDocument twoDocStore)
       [(SpelledFileURL ''file:///r/x/../m.py'' [''r'', ''m.py''], [0])]" by code_simp
  have g: "asGXL sampleObjectId twoDocStore [(moduleUri, [0])] [] [''r'']
     = Inr [GXLNode (nodeID sampleObjectId fooSymbol) ''Routine''
              \<lparr>Source_Name = ''foo'', Source_Line = 0, Source_Column = 0,
               Source_Path = ''m.py''\<rparr>]" by code_simp
  have m1: "(moduleUri, [0::ref]) \<in> set [(moduleUri, [0])]" by simp
  have m2: "(SpelledFileURL ''file:///r/x/../m.py'' [''r'', ''m.py''], [0::ref])
      \<in> set [(SpelledFileURL ''file:///r/x/../m.py'' [''r'', ''m.py''], [0])]" by simp
  have m3: "(0::ref) \<in> set [0]" by simp
  from dependency_edge_throws[OF hexDigest_sample, where h = twoDocStore
      and symbolsByFile = "[(OtherURL ''file://host/r/m.py'', [0])]"
      and references = "[(0, [0])]" and rootPath = "[''r'']"] h1
  have t: "asGXL sampleObjectId twoDocStore [(OtherURL ''file://host/r/m.py'', [0])]
      [(0, [0])] [''r''] = Inl InvalidFileURL" by blast
  from dependency_edge_throws[OF hexDigest_sample, of twoDocStore "[(moduleUri, [0])]"
      "[(0, [0])]" "[''r'']" moduleUri "[0]" 0 0 "[]"] h2 h3 h4 m1 m3
  have a: "asGXL sampleObjectId twoDocStore [(moduleUri, [0])] [(0, [0])] [''r'']
     = Inl EdgeReferencingNonExistantNode" by blast
  from dependency_edge_throws[OF hexDigest_sample, of twoDocStore
      "[(SpelledFileURL ''file:///r/x/../m.py'' [''r'', ''m.py''], [0])]"
      "[(0, [0])]" "[''r'']" "SpelledFileURL ''file:///r/x/../m.py'' [''r'', ''m.py'']"
      "[0]" 0 0 "[]"] h2 h3 h5 m2 m3
  have a': "asGXL sampleObjectId twoDocStore
       [(SpelledFileURL ''file:///r/x/../m.py'' [''r'', ''m.py''], [0])] [(0, [0])] [''r'']
     = Inl EdgeReferencingNonExistantNode" by blast
  from dependency_edge_throws[OF hexDigest_sample, where h = twoDocStore
      and symbolsByFile = "[(moduleUri, [0])]" and references = "[]" and rootPath = "[''r'']"
      and g = "[GXLNode (nodeID sampleObjectId fooSymbol) ''Routine''
              \<lparr>Source_Name = ''foo'', Source_Line = 0, Source_Column = 0,
               Source_Path = ''m.py''\<rparr>]"] g
  have b: "\<not> list_ex isDependencyEdge
       [GXLNode (nodeID sampleObjectId fooSymbol) ''Routine''
              \<lparr>Source_Name = ''foo'', Source_Line = 0, Source_Column = 0,
               Source_Path = ''m.py''\<rparr>]" by blast
  from hexDigest_sample h1 h2 h3 h4 h5 t a a' g b show ?thesis by blast
qed

text \<open>
  Claim C3 (the code departs from it). The claim: for a point inside an outer class and
  an inner method the resolver selects the method, in whatever order the provider listed
  them. The resolver returns the first stored symbol that contains the point: the class
  when the provider lists the class first, the method when it lists the method first.
\<close>

theorem resolution_follows_stored_order:
  "resolvedIn (nestedProvider [classSymbol, methodSymbol]) pointInBoth = Some classSymbol \<and>
   resolvedIn (nestedProvider [methodSymbol, classSymbol]) pointInBoth = Some methodSymbol"
  by code_simp

text \<open>
  Claim C4 (the code departs from it). The claim: the \<^verbatim>\<open>File\<close> symbol of the document is in
  the list stored under the document's URI. After \<^verbatim>\<open>/r/m.py\<close> has been processed the local
  array holds the function and the file symbol, and the stored list holds the function
  only.
\<close>

theorem file_symbol_not_stored:
  "(case defRun of
      Inl e \<Rightarrow> False
    | Inr (docSymbols, st) \<Rightarrow>
        map (heap st) docSymbols = [set_lookup_character fooSymbol 5, fileSymbol [''r''] [''r'', ''m.py'']] \<and>
        map_option (map (heap st)) (map_get (symbols st) moduleUri)
          = Some [set_lookup_character fooSymbol 5])"
  by code_simp

text \<open>
  Claim C5 (the code departs from it). The claim: every stored symbol that is not of
  kind \<^verbatim>\<open>File\<close> gets an \<^verbatim>\<open>Enclosing\<close> edge to its container or to the file symbol. For a
  document holding its file symbol, a class and a method of that class the builder
  returns three nodes and no edge, although it creates an edge element for the class and
  for the method.
\<close>

theorem member_edges_dropped:
  "asGXL oid memberStore [(moduleUri, [0, 1, 2])] [] [''r''] =
     Inr [GXLNode (nodeID oid moduleFileSymbol) ''File''
            \<lparr>Source_Name = ''m.py'', Source_Line = 0, Source_Column = 0, Source_Path = ''m.py''\<rparr>,
          GXLNode (nodeID oid classSymbol) ''Class''
            \<lparr>Source_Name = ''C'', Source_Line = 0, Source_Column = 0, Source_Path = ''m.py''\<rparr>,
          GXLNode (nodeID oid methodSymbol) ''Method''
            \<lparr>Source_Name = ''m'', Source_Line = 5, Source_Column = 0, Source_Path = ''m.py''\<rparr>] \<and>
   memberEdge oid [''r''] [''r'', ''m.py''] (map memberStore [0, 1, 2]) classSymbol
     = Some (GXLEdge (nodeID oid classSymbol) (oid (HSymbol moduleFileSymbol)) Enclosing) \<and>
   memberEdge oid [''r''] [''r'', ''m.py''] (map memberStore [0, 1, 2]) methodSymbol
     = Some (GXLEdge (nodeID oid methodSymbol) (oid (HSymbol classSymbol)) Enclosing)"
  by code_simp




text \<open>
  Where the claim as written fails. Two symbols with the same name, kind, range and
  document get different node ids when they differ in the container name, or in the
  property \<^verbatim>\<open>deprecated\<close>, under a digest that reads every property. And two stored
  objects with the same content do not collapse: the builder returns two nodes with the
  same id.
\<close>

theorem node_id_reads_container_name:
  "name symA = name symB \<and> kind symA = kind symB \<and>
   declaredRange symA = declaredRange symB \<and> uri (location symA) = uri (location symB) \<and>
   nodeID sampleObjectId symA \<noteq> nodeID sampleObjectId symB \<and>
   name symA = name symC \<and> kind symA = kind symC \<and>
   declaredRange symA = declaredRange symC \<and> uri (location symA) = uri (location symC) \<and>
   nodeID sampleObjectId symA \<noteq> nodeID sampleObjectId symC \<and>
   dupStore 0 = dupStore 1 \<and>
   asGXL sampleObjectId dupStore [(moduleUri, [0, 1])] [] [''r''] = Inr [fooNode, fooNode] \<and>
   node_id fooNode = nodeID sampleObjectId fooSymbol"
  by code_simp

text \<open>
  Claim C7, as amended. The node id is the name, a colon and the digest of the whole
  symbol object, and the builder emits one node per stored object of a kind that is not
  excluded: the ids of the nodes of the graph, in document order, are those of the stored
  objects in the order of the store, an object listed twice or two objects with the same
  content giving two nodes with the same id. Only the set \<^verbatim>\<open>nodeIds\<close> holds each id once.
  A directory whose URI is already stored is not stored again: the directory loop leaves
  its entry and every existing object as they are.
\<close>

theorem node_id_of_whole_symbol:
  "(asGXL_files oid h symbolsByFile references rootPath symbolsByFile
        \<lparr>nodeIds = [], edgeNodeIds = [], graphElement = []\<rparr> = Inr gst
    \<longrightarrow> map node_id (filter isNode (graphElement gst)) =
          map (\<lambda>r. name (h r) @ '':'' @ oid (HSymbol (h r)))
            (filter (\<lambda>r. getGXLSymbolKind (h r) \<noteq> None) (concat (map snd symbolsByFile))) \<and>
        set (nodeIds gst) =
          set (map (\<lambda>r. name (h r) @ '':'' @ oid (HSymbol (h r)))
            (filter (\<lambda>r. getGXLSymbolKind (h r) \<noteq> None) (concat (map snd symbolsByFile)))) \<and>
        distinct (nodeIds gst)) \<and>
   (asGXL oid h symbolsByFile references rootPath = Inr g
    \<longrightarrow> map node_id (filter isNode g) =
          map (\<lambda>r. name (h r) @ '':'' @ oid (HSymbol (h r)))
            (filter (\<lambda>r. getGXLSymbolKind (h r) \<noteq> None) (concat (map snd symbolsByFile)))) \<and>
   (map_has (symbols st) u \<and> r < nextRef st
    \<longrightarrow> map_get (symbols (addDirectories cwd root segments st)) u = map_get (symbols st) u \<and>
        heap (addDirectories cwd root segments st) r = heap st r)"
proof -
  let ?init = "\<lparr>nodeIds = [], edgeNodeIds = [], graphElement = []\<rparr>"
  let ?ids = "map (\<lambda>r. name (h r) @ '':'' @ oid (HSymbol (h r)))
            (filter (\<lambda>r. getGXLSymbolKind (h r) \<noteq> None) (concat (map snd symbolsByFile)))"
  have ids: "map (nodeID oid \<circ> h)
      (filter (\<lambda>r. getGXLSymbolKind (h r) \<noteq> None) (concat (map snd symbolsByFile))) = ?ids"
    by (simp add: nodeID_def comp_def)
  have 1: "map node_id (filter isNode (graphElement t)) = ?ids \<and>
           set (nodeIds t) = set ?ids \<and> distinct (nodeIds t)"
    if "asGXL_files oid h symbolsByFile references rootPath symbolsByFile ?init = Inr t" for t
    using asGXL_files_nodes[OF that] unfolding ids by simp
  have 2: "map node_id (filter isNode g) = ?ids"
    if "asGXL oid h symbolsByFile references rootPath = Inr g"
  proof -
    from that obtain t where
      t: "asGXL_files oid h symbolsByFile references rootPath symbolsByFile ?init = Inr t"
      and g: "g = graphElement t"
      by (auto simp: asGXL_def split: sum.splits if_splits)
    from 1[OF t] g show ?thesis by simp
  qed
  have 3: "map_get (symbols (addDirectories cwd root segments st)) u = map_get (symbols st) u \<and>
        heap (addDirectories cwd root segments st) r = heap st r"
    if "map_has (symbols st) u \<and> r < nextRef st"
    using that addDirectories_frame[of cwd root segments st]
    by (simp add: addDirectories_keeps)
  from 1 2 3 show ?thesis by blast
qed

text \<open>
  A witness: a document that lists two objects with the same content, and a second file
  under \<^verbatim>\<open>/a/b\<close>.
\<close>

theorem node_id_of_whole_symbol_witness:
  "asGXL_files sampleObjectId dupStore [(moduleUri, [0, 1])] [] [''r''] [(moduleUri, [0, 1])]
       \<lparr>nodeIds = [], edgeNodeIds = [], graphElement = []\<rparr> = Inr dupGraph \<and>
   (map node_id (filter isNode (graphElement dupGraph)) =
      [''foo:'' @ sampleObjectId (HSymbol fooSymbol), ''foo:'' @ sampleObjectId (HSymbol fooSymbol)] \<and>
    set (nodeIds dupGraph) = {''foo:'' @ sampleObjectId (HSymbol fooSymbol)} \<and>
    distinct (nodeIds dupGraph)) \<and>
   asGXL sampleObjectId dupStore [(moduleUri, [0, 1])] [] [''r''] = Inr [fooNode, fooNode] \<and>
   map node_id (filter isNode [fooNode, fooNode]) =
      [''foo:'' @ sampleObjectId (HSymbol fooSymbol), ''foo:'' @ sampleObjectId (HSymbol fooSymbol)] \<and>
   (map_has (symbols visitedOnce) (pathToFileURL [''a'', ''b'']) \<and> 1 < nextRef visitedOnce) \<and>
   map_get (symbols (addDirectories [''home''] [''a'', ''b'']
        (path_split [''a'', ''b'', ''e.py'']) visitedOnce)) (pathToFileURL [''a'', ''b''])
     = map_get (symbols visitedOnce) (pathToFileURL [''a'', ''b'']) \<and>
   heap (addDirectories [''home''] [''a'', ''b'']
        (path_split [''a'', ''b'', ''e.py'']) visitedOnce) 1 = heap visitedOnce 1"
proof -
  have h1: "asGXL_files sampleObjectId dupStore [(moduleUri, [0, 1])] [] [''r'']
      [(moduleUri, [0, 1])] \<lparr>nodeIds = [], edgeNodeIds = [], graphElement = []\<rparr> = Inr dupGraph"
    by code_simp
  have h2: "asGXL sampleObjectId dupStore [(moduleUri, [0, 1])] [] [''r'']
      = Inr [fooNode, fooNode]"
    by code_simp
  have h3: "map_has (symbols visitedOnce) (pathToFileURL [''a'', ''b'']) \<and> 1 < nextRef visitedOnce"
    by code_simp
  have ids: "map (\<lambda>r. name (dupStore r) @ '':'' @ sampleObjectId (HSymbol (dupStore r)))
      (filter (\<lambda>r. getGXLSymbolKind (dupStore r) \<noteq> None)
        (concat (map snd [(moduleUri, [0::ref, 1])])))
    = [''foo:'' @ sampleObjectId (HSymbol fooSymbol), ''foo:'' @ sampleObjectId (HSymbol fooSymbol)]"
    by (simp add: dupStore_def fooSymbol_def getGXLSymbolKind_def)
  note t = node_id_of_whole_symbol[where oid = sampleObjectId and h = dupStore
      and symbolsByFile = "[(moduleUri, [0, 1])]" and references = "[]" and rootPath = "[''r'']"
      and gst = dupGraph and g = "[fooNode, fooNode]"
      and st = visitedOnce and u = "pathToFileURL [''a'', ''b'']" and r = 1
      and cwd = "[''home'']" and root = "[''a'', ''b'']" and segments = "path_split [''a'', ''b'', ''e.py'']",
      unfolded ids]
  from t h1 have a: "map node_id (filter isNode (graphElement dupGraph)) =
      [''foo:'' @ sampleObjectId (HSymbol fooSymbol), ''foo:'' @ sampleObjectId (HSymbol fooSymbol)] \<and>
    set (nodeIds dupGraph) = {''foo:'' @ sampleObjectId (HSymbol fooSymbol)} \<and>
    distinct (nodeIds dupGraph)" by simp
  from t h2 have b: "map node_id (filter isNode [fooNode, fooNode]) =
      [''foo:'' @ sampleObjectId (HSymbol fooSymbol), ''foo:'' @ sampleObjectId (HSymbol fooSymbol)]"
    by blast
  from t h3 have c: "map_get (symbols (addDirectories [''home''] [''a'', ''b'']
        (path_split [''a'', ''b'', ''e.py'']) visitedOnce)) (pathToFileURL [''a'', ''b''])
     = map_get (symbols visitedOnce) (pathToFileURL [''a'', ''b'']) \<and>
   heap (addDirectories [''home''] [''a'', ''b'']
        (path_split [''a'', ''b'', ''e.py'']) visitedOnce) 1 = heap visitedOnce 1"
    by blast
  from h1 h2 h3 a b c show ?thesis by blast
qed

text \<open>
  Claim C8 (the code departs from it). The claim: no stage after the creation of a
  symbol changes any of its fields. The provider reports \<^verbatim>\<open>foo\<close> starting at column 0 of
  the line \<^verbatim>\<open>def foo():\<close>; after reference lookup the stored symbol starts at column 5.
\<close>

theorem lookup_moves_stored_range:
  "(case defRun of
      Inl e \<Rightarrow> False
    | Inr (docSymbols, st) \<Rightarrow>
        map_option (map (\<lambda>r. start (declaredRange (heap st r)))) (map_get (symbols st) moduleUri)
          = Some [\<lparr>line = 0, character = 5\<rparr>]) \<and>
   map (\<lambda>s. start (declaredRange s)) (documentSymbolRequest defProvider moduleUri)
     = [\<lparr>line = 0, character = 0\<rparr>]"
  by code_simp

text \<open>
  Where the claim as written fails: for \<^verbatim>\<open>def foo():\<close> with the symbol at column 0 the
  references request is sent for column 5, not 4.
\<close>

theorem def_lookup_column:
  "(case defRun of
      Inl e \<Rightarrow> False
    | Inr (docSymbols, st) \<Rightarrow>
        requests st = [\<lparr>textDocument = moduleUri, position = \<lparr>line = 0, character = 5\<rparr>\<rparr>] \<and>
        map (\<lambda>p. character (position p)) (requests st) \<noteq> [4])"
  by code_simp

text \<open>
  Claim C9, as amended. For a symbol of a kind that is not excluded, on a line that exists
  and is not an import line, the references request is sent, and its column is fixed by
  the text at the symbol's start column \<open>c\<close>. When that text begins with \<^verbatim>\<open>def \<close> the column
  is \<open>c + 5\<close> (the length of the keyword with its space, plus one), and the text at
  \<open>c + 5\<close> is tested for \<^verbatim>\<open>class \<close> in turn: when it begins with it the column is \<open>c + 12\<close>.
  When the text at \<open>c\<close> begins with \<^verbatim>\<open>class \<close> the column is \<open>c + 7\<close>. At neither keyword
  the column is \<open>c\<close>.
\<close>

theorem keyword_skip_position:
  assumes "getGXLSymbolKind (heap st r) \<noteq> None"
    and "nth_opt (split_lines (readFile provider filePath))
           (line (start (lookupRange (heap st r)))) = Some lineContent"
    and "\<not> matches_import lineContent"
    and "c = character (start (lookupRange (heap st r)))"
  shows "\<exists>st'. getReferences provider filePath u r st = Inr st' \<and>
     requests st' = requests st @
       [\<lparr>textDocument = u,
         position = \<lparr>line = line (start (lookupRange (heap st r))),
           character =
             (if startsWith (drop c lineContent) ''def '' then
                (if startsWith (drop (c + 5) lineContent) ''class '' then c + 12 else c + 5)
              else if startsWith (drop c lineContent) ''class '' then c + 7 else c)\<rparr>\<rparr>]"
  using getReferences_request[OF assms(1-3), of u] unfolding assms(4) skipKeywords_columns .

text \<open>
  A witness: the symbol at line 0, column 0 of a file whose text is \<^verbatim>\<open>def foo():\<close>,
  \<^verbatim>\<open>def xclass y\<close>, \<^verbatim>\<open>class C:\<close> or \<^verbatim>\<open>foo = 1\<close>.
\<close>

theorem keyword_skip_position_witness:
  "(getGXLSymbolKind (heap fooState 0) \<noteq> None \<and>
    0 = character (start (lookupRange (heap fooState 0))) \<and>
    line (start (lookupRange (heap fooState 0))) = 0 \<and> requests fooState = []) \<and>
   (nth_opt (split_lines (readFile (lineProvider ''def foo():'') [''r'', ''m.py'']))
      (line (start (lookupRange (heap fooState 0)))) = Some ''def foo():'' \<and>
    \<not> matches_import ''def foo():'') \<and>
   (\<exists>st'. getReferences (lineProvider ''def foo():'') [''r'', ''m.py''] moduleUri 0 fooState
            = Inr st' \<and>
      requests st' = [\<lparr>textDocument = moduleUri, position = \<lparr>line = 0, character = 5\<rparr>\<rparr>]) \<and>
   (nth_opt (split_lines (readFile (lineProvider ''def xclass y'') [''r'', ''m.py'']))
      (line (start (lookupRange (heap fooState 0)))) = Some ''def xclass y'' \<and>
    \<not> matches_import ''def xclass y'') \<and>
   (\<exists>st'. getReferences (lineProvider ''def xclass y'') [''r'', ''m.py''] moduleUri 0 fooState
            = Inr st' \<and>
      requests st' = [\<lparr>textDocument = moduleUri, position = \<lparr>line = 0, character = 12\<rparr>\<rparr>]) \<and>
   (nth_opt (split_lines (readFile (lineProvider ''class C:'') [''r'', ''m.py'']))
      (line (start (lookupRange (heap fooState 0)))) = Some ''class C:'' \<and>
    \<not> matches_import ''class C:'') \<and>
   (\<exists>st'. getReferences (lineProvider ''class C:'') [''r'', ''m.py''] moduleUri 0 fooState
            = Inr st' \<and>
      requests st' = [\<lparr>textDocument = moduleUri, position = \<lparr>line = 0, character = 7\<rparr>\<rparr>]) \<and>
   (nth_opt (split_lines (readFile (lineProvider ''foo = 1'') [''r'', ''m.py'']))
      (line (start (lookupRange (heap fooState 0)))) = Some ''foo = 1'' \<and>
    \<not> matches_import ''foo = 1'') \<and>
   (\<exists>st'. getReferences (lineProvider ''foo = 1'') [''r'', ''m.py''] moduleUri 0 fooState
            = Inr st' \<and>
      requests st' = [\<lparr>textDocument = moduleUri, position = \<lparr>line = 0, character = 0\<rparr>\<rparr>])"
proof -
  have k: "getGXLSymbolKind (heap fooState 0) \<noteq> None" by code_simp
  have c: "0 = character (start (lookupRange (heap fooState 0)))" by code_simp
  have ln: "line (start (lookupRange (heap fooState 0))) = 0" by code_simp
  have rq: "requests fooState = []" by code_simp
  have i1: "\<not> matches_import ''def foo():''" by code_simp
  have i2: "\<not> matches_import ''def xclass y''" by code_simp
  have i3: "\<not> matches_import ''class C:''" by code_simp
  have i4: "\<not> matches_import ''foo = 1''" by code_simp
  have l1: "nth_opt (split_lines (readFile (lineProvider ''def foo():'') [''r'', ''m.py'']))
      (line (start (lookupRange (heap fooState 0)))) = Some ''def foo():''" by code_simp
  have l2: "nth_opt (split_lines (readFile (lineProvider ''def xclass y'') [''r'', ''m.py'']))
      (line (start (lookupRange (heap fooState 0)))) = Some ''def xclass y''" by code_simp
  have l3: "nth_opt (split_lines (readFile (lineProvider ''class C:'') [''r'', ''m.py'']))
      (line (start (lookupRange (heap fooState 0)))) = Some ''class C:''" by code_simp
  have l4: "nth_opt (split_lines (readFile (lineProvider ''foo = 1'') [''r'', ''m.py'']))
      (line (start (lookupRange (heap fooState 0)))) = Some ''foo = 1''" by code_simp
  have s1: "startsWith (drop 0 ''def foo():'') ''def '' \<and>
            \<not> startsWith (drop (0 + 5) ''def foo():'') ''class ''" by code_simp
  have s2: "startsWith (drop 0 ''def xclass y'') ''def '' \<and>
            startsWith (drop (0 + 5) ''def xclass y'') ''class ''" by code_simp
  have s3: "\<not> startsWith (drop 0 ''class C:'') ''def '' \<and>
            startsWith (drop 0 ''class C:'') ''class ''" by code_simp
  have s4: "\<not> startsWith (drop 0 ''foo = 1'') ''def '' \<and>
            \<not> startsWith (drop 0 ''foo = 1'') ''class ''" by code_simp
  from keyword_skip_position[OF k l1 i1 c, of moduleUri] s1 ln rq
  have a: "\<exists>st'. getReferences (lineProvider ''def foo():'') [''r'', ''m.py''] moduleUri 0 fooState
            = Inr st' \<and>
      requests st' = [\<lparr>textDocument = moduleUri, position = \<lparr>line = 0, character = 5\<rparr>\<rparr>]"
    by simp
  from keyword_skip_position[OF k l2 i2 c, of moduleUri] s2 ln rq
  have b: "\<exists>st'. getReferences (lineProvider ''def xclass y'') [''r'', ''m.py''] moduleUri 0 fooState
            = Inr st' \<and>
      requests st' = [\<lparr>textDocument = moduleUri, position = \<lparr>line = 0, character = 12\<rparr>\<rparr>]"
    by simp
  from keyword_skip_position[OF k l3 i3 c, of moduleUri] s3 ln rq
  have c': "\<exists>st'. getReferences (lineProvider ''class C:'') [''r'', ''m.py''] moduleUri 0 fooState
            = Inr st' \<and>
      requests st' = [\<lparr>textDocument = moduleUri, position = \<lparr>line = 0, character = 7\<rparr>\<rparr>]"
    by simp
  from keyword_skip_position[OF k l4 i4 c, of moduleUri] s4 ln rq
  have d: "\<exists>st'. getReferences (lineProvider ''foo = 1'') [''r'', ''m.py''] moduleUri 0 fooState
            = Inr st' \<and>
      requests st' = [\<lparr>textDocument = moduleUri, position = \<lparr>line = 0, character = 0\<rparr>\<rparr>]"
    by simp
  from k c ln rq i1 i2 i3 i4 l1 l2 l3 l4 a b c' d show ?thesis by blast
qed



end
